theory Spec2Isabelle
  imports Main "HOL-Library.Log_Nat" "HOL-Library.Multiset"
begin

section \<open>Python values and errors\<close>

text \<open>
  The three scripts (\<^verbatim>\<open>file_census.py\<close>, \<^verbatim>\<open>downloads_weekly_review.py\<close>,
  \<^verbatim>\<open>summary_report.py\<close>) are embedded as HOL functions. Exceptions are
  values: a function that can raise returns \<open>py_error + 'a\<close>, with \<open>Inl\<close> the exception.
  \<open>SystemExit n\<close> is the exception \<^verbatim>\<open>sys.exit(n)\<close> raises.
\<close>

datatype py_error =
    ZeroDivisionError
  | OverflowError
  | KeyError string
  | ValueError
  | TypeError
  | CsvError
  | FileNotFoundError
  | NotADirectoryError
  | PermissionError
  | OSError
  | KeyboardInterrupt
  | SystemExit nat

text \<open>
  A Python number is an unbounded \<^verbatim>\<open>int\<close> or a \<^verbatim>\<open>float\<close>. A float is
  modelled by the rational number it denotes (every finite binary64 value is a rational);
  the operations that round are written out below.
\<close>

datatype pynum = PInt int | PFloat rat

subsection \<open>Decimal rendering of integers\<close>

definition digit_char :: "nat \<Rightarrow> char" where
  "digit_char d = ''0123456789'' ! d"

text \<open>\<^verbatim>\<open>str(n)\<close> for a non-negative integer.\<close>

function string_of_nat :: "nat \<Rightarrow> string" where
  "string_of_nat n =
     (if n < 10 then [digit_char n]
      else string_of_nat (n div 10) @ [digit_char (n mod 10)])"
  by pat_completeness auto
termination
  by (relation "measure id") auto

declare string_of_nat.simps [simp del]

subsection \<open>Binary64 rounding\<close>

text \<open>
  \<open>rhe_div a b\<close> is the integer nearest to \<open>a / b\<close> (for \<open>0 < b\<close>), ties going to the
  even neighbour: the rounding of IEEE 754 arithmetic and of Python's float formatting.
\<close>

definition rhe_div :: "int \<Rightarrow> int \<Rightarrow> int" where
  "rhe_div a b =
     (let f = a div b; r = a mod b
      in if 2 * r < b then f else if b < 2 * r then f + 1 else if even f then f else f + 1)"

definition round_half_even :: "rat \<Rightarrow> int" where
  "round_half_even x = (let (p, q) = quotient_of x in rhe_div p q)"

definition pow2 :: "int \<Rightarrow> rat" where
  "pow2 e = (if 0 \<le> e then of_int (2 ^ nat e) else 1 / of_int (2 ^ nat (- e)))"

text \<open>For \<open>0 < x\<close>, \<open>binade x\<close> is the exponent \<open>E\<close> with \<open>2^E \<le> x < 2^(E+1)\<close>.\<close>

definition binade :: "rat \<Rightarrow> int" where
  "binade x =
     (let (p, q) = quotient_of x; e0 = bitlen p - bitlen q
      in if (if 0 \<le> e0 then q * 2 ^ nat e0 \<le> p else q \<le> p * 2 ^ nat (- e0))
         then e0 else e0 - 1)"

text \<open>
  Rounding a real number to binary64: 53 significant bits, the unit in the last place
  never below \<open>2^-1074\<close> (subnormal numbers), round to nearest, ties to even.
\<close>

definition round_binary64 :: "rat \<Rightarrow> rat" where
  "round_binary64 x =
     (if x = 0 then 0
      else let u = max (binade \<bar>x\<bar> - 52) (- 1074); (p, q) = quotient_of x;
               m = (if 0 \<le> u then rhe_div p (q * 2 ^ nat u) else rhe_div (p * 2 ^ nat (- u)) q)
           in of_int m * pow2 u)"

text \<open>
  \<^verbatim>\<open>float(n)\<close> of an integer and the true division \<^verbatim>\<open>a / b\<close> of two integers:
  the exact value correctly rounded, \<^verbatim>\<open>OverflowError\<close> when the rounded value does not
  fit (its magnitude reaches \<open>2^1024\<close>).
\<close>

definition py_float :: "rat \<Rightarrow> py_error + rat" where
  "py_float x =
     (let v = round_binary64 x
      in if v \<noteq> 0 \<and> 1024 \<le> binade \<bar>v\<bar> then Inl OverflowError else Inr v)"

definition py_truediv :: "int \<Rightarrow> int \<Rightarrow> py_error + rat" where
  "py_truediv a b = (if b = 0 then Inl ZeroDivisionError else py_float (of_int a / of_int b))"

subsection \<open>The format specification \<^verbatim>\<open>.1f\<close>\<close>

text \<open>
  \<^verbatim>\<open>f"{x:.1f}"\<close> of a float: the exact value of the float rounded to one decimal,
  ties to even, written with its integer part, a point and one digit.
\<close>

definition format_1f :: "rat \<Rightarrow> string" where
  "format_1f x =
     (let t = nat (round_half_even (\<bar>x\<bar> * 10))
      in (if x < 0 then ''-'' else '''') @ string_of_nat (t div 10) @ ''.'' @ string_of_nat (t mod 10))"

text \<open>An \<^verbatim>\<open>int\<close> formatted with \<^verbatim>\<open>.1f\<close> is converted to a float first.\<close>

fun format_num_1f :: "pynum \<Rightarrow> py_error + string" where
  "format_num_1f (PInt n) =
     (case py_float (of_int n) of Inl e \<Rightarrow> Inl e | Inr v \<Rightarrow> Inr (format_1f v))"
| "format_num_1f (PFloat v) = Inr (format_1f v)"

section \<open>\<^verbatim>\<open>format_file_size\<close> (the same function in all three scripts)\<close>

definition size_names :: "string list" where
  "size_names = [''B'', ''KB'', ''MB'', ''GB'', ''TB'']"

fun num_is_zero :: "pynum \<Rightarrow> bool" where
  "num_is_zero (PInt n) = (n = 0)"
| "num_is_zero (PFloat v) = (v = 0)"

fun num_ge_1024 :: "pynum \<Rightarrow> bool" where
  "num_ge_1024 (PInt n) = (1024 \<le> n)"
| "num_ge_1024 (PFloat v) = (1024 \<le> v)"

text \<open>
  \<^verbatim>\<open>size_bytes /= 1024.0\<close>: an \<^verbatim>\<open>int\<close> operand is converted to a float first; the
  division of a binary64 value of at least 1024 by \<open>2^10\<close> is exact.
\<close>

fun num_div_1024 :: "pynum \<Rightarrow> py_error + pynum" where
  "num_div_1024 (PInt n) =
     (case py_float (of_int n) of Inl e \<Rightarrow> Inl e | Inr v \<Rightarrow> Inr (PFloat (v / 1024)))"
| "num_div_1024 (PFloat v) = Inr (PFloat (v / 1024))"

text \<open>The \<^verbatim>\<open>while\<close> loop of \<^verbatim>\<open>format_file_size\<close>, on \<^verbatim>\<open>(size_bytes, i)\<close>.\<close>

function size_loop :: "pynum \<Rightarrow> nat \<Rightarrow> py_error + (pynum \<times> nat)" where
  "size_loop s i =
     (if num_ge_1024 s \<and> i < length size_names - 1
      then (case num_div_1024 s of Inl e \<Rightarrow> Inl e | Inr s' \<Rightarrow> size_loop s' (i + 1))
      else Inr (s, i))"
  by pat_completeness auto
termination
  by (relation "measure (\<lambda>(s, i). length size_names - i)") (auto simp: size_names_def)

declare size_loop.simps [simp del]

definition format_file_size :: "pynum \<Rightarrow> py_error + string" where
  "format_file_size size_bytes =
     (if num_is_zero size_bytes then Inr ''0 B''
      else case size_loop size_bytes 0 of
             Inl e \<Rightarrow> Inl e
           | Inr (s, i) \<Rightarrow>
               (case format_num_1f s of
                  Inl e \<Rightarrow> Inl e
                | Inr str \<Rightarrow> Inr (str @ '' '' @ size_names ! i)))"

text \<open>
  The formatting contract in the words of the specification: the number of divisions by
  1024 made "while the remaining value is at least 1024 and a larger unit remains".
\<close>

definition spec_unit_index :: "rat \<Rightarrow> nat" where
  "spec_unit_index v =
     (if v < 1024 then 0 else if v < 1024 ^ 2 then 1 else if v < 1024 ^ 3 then 2
      else if v < 1024 ^ 4 then 3 else 4)"

definition is_digit :: "char \<Rightarrow> bool" where
  "is_digit c = (c \<in> set ''0123456789'')"

section \<open>\<^verbatim>\<open>truncate_filename\<close> (weekly review)\<close>

text \<open>
  A Python \<^verbatim>\<open>str\<close> is a \<open>string\<close>, one \<open>char\<close> per character. The slice
  \<^verbatim>\<open>s[:k]\<close> keeps the first \<open>k\<close> characters and, for a negative \<open>k\<close>, drops the
  last \<open>-k\<close>.
\<close>

definition py_slice_to :: "'a list \<Rightarrow> int \<Rightarrow> 'a list" where
  "py_slice_to s k = (if 0 \<le> k then take (nat k) s else take (length s - nat (- k)) s)"

text \<open>\<^verbatim>\<open>filename.rsplit('.', 1)\<close> for a name that contains a dot: the split at the last dot.\<close>

definition rsplit_dot :: "string \<Rightarrow> string \<times> string" where
  "rsplit_dot s =
     (rev (drop 1 (dropWhile (\<lambda>c. c \<noteq> CHR ''.'') (rev s))),
      rev (takeWhile (\<lambda>c. c \<noteq> CHR ''.'') (rev s)))"

definition truncate_filename :: "string \<Rightarrow> int \<Rightarrow> string" where
  "truncate_filename filename max_length =
     (if int (length filename) \<le> max_length then filename
      else let truncated = py_slice_to filename (max_length - 3) @ ''...''
           in if CHR ''.'' \<in> set filename
              then (let (name, ext) = rsplit_dot filename
                    in if int (length ext) < max_length - 3
                       then (let available_length = max_length - int (length ext) - 4
                             in if 0 < available_length
                                then py_slice_to name available_length @ ''...'' @ ext
                                else truncated)
                       else truncated)
              else truncated)"

section \<open>Records\<close>

text \<open>
  The dictionaries of the scripts are records. A key two dictionaries share is a field of a
  common parent record (\<open>size_bytes\<close>, \<open>size_formatted\<close>; \<open>total_files\<close>, \<open>total_size\<close>,
  \<open>total_size_formatted\<close>, \<open>largest_files\<close>); the keys \<^verbatim>\<open>name\<close>, \<^verbatim>\<open>path\<close>,
  \<^verbatim>\<open>total_size\<close> and \<^verbatim>\<open>total_size_formatted\<close> of a subfolder dictionary are the
  fields \<open>folder_name\<close>, \<open>folder_path\<close>, \<open>folder_total_size\<close> and
  \<open>folder_total_size_formatted\<close>; the keys \<^verbatim>\<open>extension\<close>/\<^verbatim>\<open>year\<close>,
  \<^verbatim>\<open>count\<close>, \<^verbatim>\<open>total_size\<close>, \<^verbatim>\<open>total_size_formatted\<close> of a group are
  \<open>group_key\<close>, \<open>group_count\<close>, \<open>group_total_size\<close>, \<open>group_total_size_formatted\<close>.
  A key that a dictionary may lack is an \<open>option\<close> field (\<open>None\<close>: the key is absent).
  Time stamps (\<^verbatim>\<open>st_mtime\<close>, \<^verbatim>\<open>st_ctime\<close>, \<^verbatim>\<open>datetime.now().timestamp()\<close>) are
  floats, seconds since the epoch.
\<close>

record sized =
  size_bytes :: int
  size_formatted :: string

record file_info = sized +
  name :: string
  modified_time :: rat
  modified_formatted :: string
  path :: string
  relative_path :: string

record subfolder_info =
  folder_name :: string
  file_count :: int
  folder_total_size :: int
  folder_total_size_formatted :: string
  created_time :: rat
  created_formatted :: string
  folder_path :: string

record datetime =
  year :: nat
  month :: nat
  day :: nat
  hour :: nat
  minute :: nat
  second :: nat

record census_info = sized +
  filename :: string
  full_path :: string
  modified_date :: string
  extension :: string

record csv_row = census_info +
  modified_datetime :: datetime

record 'k group_info =
  group_key :: 'k
  group_count :: int
  group_total_size :: int
  group_total_size_formatted :: string

record 'f analysis_core =
  total_files :: int
  total_size :: int
  total_size_formatted :: "string option"
  largest_files :: "'f list"

text \<open>
  The result of \<^verbatim>\<open>analyze_files\<close>; \<open>oldest_date\<close> and \<open>newest_date\<close> hold Python's
  \<^verbatim>\<open>None\<close> as \<open>None\<close>.
\<close>

record weekly_analysis = "file_info analysis_core" +
  average_size :: pynum
  average_size_formatted :: "string option"
  oldest_date :: "string option"
  newest_date :: "string option"
  recent_files :: "file_info list"
  oldest_files :: "file_info list"
  subfolders :: "subfolder_info list"

record summary_analysis = "csv_row analysis_core" +
  file_types :: "string group_info list"
  files_by_year :: "nat group_info list"

section \<open>Dates\<close>

definition pad2 :: "nat \<Rightarrow> string" where
  "pad2 n = (if n < 10 then ''0'' else '''') @ string_of_nat n"

definition pad4 :: "nat \<Rightarrow> string" where
  "pad4 n = replicate (4 - length (string_of_nat n)) CHR ''0'' @ string_of_nat n"

text \<open>
  \<^verbatim>\<open>strftime('%Y-%m-%d %H:%M')\<close> and \<^verbatim>\<open>strftime('%Y-%m-%d %H:%M:%S')\<close>. The year is
  written with four digits, as the C library writes the years from 1000 on; the time stamps
  of files are of such years.
\<close>

definition strftime_minutes :: "datetime \<Rightarrow> string" where
  "strftime_minutes dt =
     pad4 (year dt) @ ''-'' @ pad2 (month dt) @ ''-'' @ pad2 (day dt) @ '' '' @
     pad2 (hour dt) @ '':'' @ pad2 (minute dt)"

definition strftime_seconds :: "datetime \<Rightarrow> string" where
  "strftime_seconds dt = strftime_minutes dt @ '':'' @ pad2 (second dt)"

text \<open>
  \<^verbatim>\<open>datetime.fromtimestamp\<close> converts a time stamp to local time with the time zone
  of the process, and raises for a time stamp out of range: it is a parameter
  \<open>fromtimestamp :: rat \<Rightarrow> py_error + datetime\<close> of the functions that call it.
\<close>

definition format_date :: "(rat \<Rightarrow> py_error + datetime) \<Rightarrow> rat \<Rightarrow> py_error + string" where
  "format_date fromtimestamp timestamp =
     (case fromtimestamp timestamp of Inl e \<Rightarrow> Inl e | Inr dt \<Rightarrow> Inr (strftime_minutes dt))"

section \<open>Sorting\<close>

text \<open>
  \<^verbatim>\<open>sorted(xs, key=k)\<close> and \<^verbatim>\<open>xs.sort(key=k)\<close> are stable. With
  \<^verbatim>\<open>reverse=True\<close> CPython reverses the list, sorts it stably by ascending key and
  reverses the result, so that elements with equal keys keep their original order.
\<close>

definition py_sorted :: "('a \<Rightarrow> 'k::linorder) \<Rightarrow> 'a list \<Rightarrow> 'a list" where
  "py_sorted key xs = sort_key key xs"

definition py_sorted_reverse :: "('a \<Rightarrow> 'k::linorder) \<Rightarrow> 'a list \<Rightarrow> 'a list" where
  "py_sorted_reverse key xs = rev (sort_key key (rev xs))"

section \<open>\<^verbatim>\<open>analyze_files\<close> (weekly review)\<close>

text \<open>\<^verbatim>\<open>datetime.now().timestamp() - (7 * 24 * 60 * 60)\<close>, a float subtraction.\<close>

definition seven_days_ago :: "rat \<Rightarrow> rat" where
  "seven_days_ago now = round_binary64 (now - 7 * 24 * 60 * 60)"

text \<open>
  The clock reading \<open>now\<close> (\<^verbatim>\<open>datetime.now().timestamp()\<close>) and the local-time
  conversion are parameters. The exceptions of the formatting calls are results.
\<close>

definition analyze_files ::
  "rat \<Rightarrow> (rat \<Rightarrow> py_error + datetime) \<Rightarrow> file_info list \<Rightarrow> subfolder_info list \<Rightarrow>
   py_error + weekly_analysis" where
  "analyze_files now fromtimestamp files_data subfolders_data =
     (case files_data of
        [] \<Rightarrow>
          Inr \<lparr>total_files = 0, total_size = 0, total_size_formatted = None, largest_files = [],
               average_size = PInt 0, average_size_formatted = None,
               oldest_date = None, newest_date = None,
               recent_files = [], oldest_files = [], subfolders = []\<rparr>
      | f # fs \<Rightarrow>
          (let n_files = int (length files_data);
               sum_size = sum_list (map size_bytes files_data)
           in case (if 0 < n_files then map_sum id PFloat (py_truediv sum_size n_files)
                    else Inr (PInt 0)) of
                Inl e \<Rightarrow> Inl e
              | Inr avg \<Rightarrow>
                  (let oldest = fold min (map modified_time fs) (modified_time f);
                       newest = fold max (map modified_time fs) (modified_time f);
                       largest = take 15 (py_sorted_reverse size_bytes files_data);
                       recent = py_sorted_reverse modified_time
                                  (filter (\<lambda>f. seven_days_ago now \<le> modified_time f) files_data);
                       oldest_list = take 15 (py_sorted modified_time files_data);
                       sorted_subfolders = py_sorted_reverse folder_total_size subfolders_data
                   in case format_file_size (PInt sum_size) of
                        Inl e \<Rightarrow> Inl e
                      | Inr sum_fmt \<Rightarrow>
                          (case format_file_size avg of
                             Inl e \<Rightarrow> Inl e
                           | Inr avg_fmt \<Rightarrow>
                               (case format_date fromtimestamp oldest of
                                  Inl e \<Rightarrow> Inl e
                                | Inr oldest_fmt \<Rightarrow>
                                    (case format_date fromtimestamp newest of
                                       Inl e \<Rightarrow> Inl e
                                     | Inr newest_fmt \<Rightarrow>
                                         Inr \<lparr>total_files = n_files, total_size = sum_size,
                                              total_size_formatted = Some sum_fmt,
                                              largest_files = largest,
                                              average_size = avg,
                                              average_size_formatted = Some avg_fmt,
                                              oldest_date = Some oldest_fmt,
                                              newest_date = Some newest_fmt,
                                              recent_files = recent,
                                              oldest_files = oldest_list,
                                              subfolders = sorted_subfolders\<rparr>))))))"

section \<open>\<^verbatim>\<open>analyze_data\<close> (summary report)\<close>

text \<open>
  A \<^verbatim>\<open>Counter\<close> or \<^verbatim>\<open>defaultdict(int)\<close> is an association list in insertion
  order, as a Python dictionary iterates; adding to a key that is present keeps its place.
\<close>

fun counter_add :: "'k \<Rightarrow> int \<Rightarrow> ('k \<times> int) list \<Rightarrow> ('k \<times> int) list" where
  "counter_add k v [] = [(k, v)]"
| "counter_add k v ((k', c) # m) =
     (if k = k' then (k', c + v) # m else (k', c) # counter_add k v m)"

definition counter_get :: "('k \<times> int) list \<Rightarrow> 'k \<Rightarrow> int" where
  "counter_get m k = (case map_of m k of None \<Rightarrow> 0 | Some v \<Rightarrow> v)"

text \<open>
  \<^verbatim>\<open>str.lower()\<close> follows the Unicode character database of the Python version: it
  is a parameter \<open>str_lower :: string \<Rightarrow> string\<close> of the functions that call it.
\<close>

definition ext_label :: "(string \<Rightarrow> string) \<Rightarrow> csv_row \<Rightarrow> string" where
  "ext_label str_lower file_info =
     (let ext = str_lower (extension file_info) in if ext = [] then ''(no extension)'' else ext)"

fun map_err :: "('a \<Rightarrow> py_error + 'b) \<Rightarrow> 'a list \<Rightarrow> py_error + 'b list" where
  "map_err f [] = Inr []"
| "map_err f (x # xs) =
     (case f x of
        Inl e \<Rightarrow> Inl e
      | Inr y \<Rightarrow> (case map_err f xs of Inl e \<Rightarrow> Inl e | Inr ys \<Rightarrow> Inr (y # ys)))"

definition make_group :: "('k \<times> int) list \<Rightarrow> 'k \<Rightarrow> int \<Rightarrow> py_error + 'k group_info" where
  "make_group sizes k c =
     (case format_file_size (PInt (counter_get sizes k)) of
        Inl e \<Rightarrow> Inl e
      | Inr fmt \<Rightarrow>
          Inr \<lparr>group_key = k, group_count = c, group_total_size = counter_get sizes k,
               group_total_size_formatted = fmt\<rparr>)"

definition analyze_data ::
  "(string \<Rightarrow> string) \<Rightarrow> csv_row list \<Rightarrow> py_error + summary_analysis" where
  "analyze_data str_lower files_data =
     (let sum_size = sum_list (map size_bytes files_data)
      in case format_file_size (PInt sum_size) of
           Inl e \<Rightarrow> Inl e
         | Inr sum_fmt \<Rightarrow>
             (let largest = take 10 (py_sorted_reverse size_bytes files_data);
                  extension_counts = fold (\<lambda>f m. counter_add (ext_label str_lower f) 1 m) files_data [];
                  extension_sizes =
                    fold (\<lambda>f m. counter_add (ext_label str_lower f) (size_bytes f) m) files_data []
              in case map_err (\<lambda>(ext, c). make_group extension_sizes ext c)
                        (py_sorted_reverse snd extension_counts) of
                   Inl e \<Rightarrow> Inl e
                 | Inr types \<Rightarrow>
                     (let year_counts =
                            fold (\<lambda>f m. counter_add (year (modified_datetime f)) 1 m) files_data [];
                          year_sizes =
                            fold (\<lambda>f m. counter_add (year (modified_datetime f)) (size_bytes f) m)
                              files_data []
                      in case map_err (\<lambda>y. make_group year_sizes y (counter_get year_counts y))
                                (py_sorted_reverse (\<lambda>y. y) (map fst year_counts)) of
                           Inl e \<Rightarrow> Inl e
                         | Inr years \<Rightarrow>
                             Inr \<lparr>total_files = int (length files_data), total_size = sum_size,
                                  total_size_formatted = Some sum_fmt, largest_files = largest,
                                  file_types = types, files_by_year = years\<rparr>)))"

section \<open>Rendering\<close>

text \<open>
  A report is a list of lines. The non-ASCII decoration of the headings and links of the
  scripts (emoji) is left out of the line texts; nothing else is.
\<close>

subsection \<open>Formatting helpers\<close>

definition string_of_int :: "int \<Rightarrow> string" where
  "string_of_int i = (if i < 0 then ''-'' @ string_of_nat (nat (- i)) else string_of_nat (nat i))"

definition pad3 :: "nat \<Rightarrow> string" where
  "pad3 n = replicate (3 - length (string_of_nat n)) CHR ''0'' @ string_of_nat n"

text \<open>\<^verbatim>\<open>f"{n:,}"\<close>: the decimal digits in groups of three.\<close>

function group_thousands :: "nat \<Rightarrow> string" where
  "group_thousands n =
     (if n < 1000 then string_of_nat n
      else group_thousands (n div 1000) @ '','' @ pad3 (n mod 1000))"
  by pat_completeness auto
termination
  by (relation "measure id") auto

declare group_thousands.simps [simp del]

definition format_commas :: "int \<Rightarrow> string" where
  "format_commas i =
     (if i < 0 then ''-'' @ group_thousands (nat (- i)) else group_thousands (nat i))"

definition backslash :: char where
  "backslash = CHR 0x5C"

text \<open>\<^verbatim>\<open>s.replace('|', '\\|')\<close> and \<^verbatim>\<open>s.replace('\\', '/')\<close>.\<close>

definition escape_pipes :: "string \<Rightarrow> string" where
  "escape_pipes s = concat (map (\<lambda>c. if c = CHR ''|'' then [backslash, CHR ''|''] else [c]) s)"

definition slashes :: "string \<Rightarrow> string" where
  "slashes s = map (\<lambda>c. if c = backslash then CHR ''/'' else c) s"

text \<open>
  \<^verbatim>\<open>urllib.parse.quote(s, safe='/:')\<close>, on the bytes of the string: a byte outside
  the unreserved characters and \<^verbatim>\<open>/:\<close> becomes \<^verbatim>\<open>%XX\<close>.
\<close>

definition hex_digit :: "nat \<Rightarrow> char" where
  "hex_digit d = ''0123456789ABCDEF'' ! d"

definition quote_char :: "char \<Rightarrow> string" where
  "quote_char c =
     (if c \<in> set ''ABCDEFGHIJKLMNOPQRSTUVWXYZabcdefghijklmnopqrstuvwxyz0123456789_.-~/:''
      then [c]
      else [CHR ''%'', hex_digit (of_char c div 16), hex_digit (of_char c mod 16)])"

definition quote :: "string \<Rightarrow> string" where
  "quote s = concat (map quote_char s)"

definition str_or_None :: "string option \<Rightarrow> string" where
  "str_or_None v = (case v of None \<Rightarrow> ''None'' | Some s \<Rightarrow> s)"

subsection \<open>\<^verbatim>\<open>generate_markdown_report\<close> of the weekly review\<close>

definition largest_row :: "file_info \<Rightarrow> string" where
  "largest_row file_info =
     ''| '' @ escape_pipes (truncate_filename (name file_info) 40) @ '' | '' @
     size_formatted file_info @ '' | '' @ modified_formatted file_info @ '' | '' @
     ''[](obsidian://shell-commands/?execute=19bemkchg3&_file_path='' @
     quote (slashes (path file_info)) @ '') |''"

definition file_row :: "file_info \<Rightarrow> string" where
  "file_row file_info =
     ''| '' @ escape_pipes (truncate_filename (name file_info) 40) @ '' | '' @
     size_formatted file_info @ '' | '' @ modified_formatted file_info @ '' |''"

definition folder_row :: "subfolder_info \<Rightarrow> string" where
  "folder_row folder_info =
     ''| '' @ escape_pipes (folder_name folder_info) @ '' | '' @
     format_commas (file_count folder_info) @ '' | '' @
     folder_total_size_formatted folder_info @ '' | '' @ created_formatted folder_info @ '' |''"

definition weekly_tables :: "string \<Rightarrow> weekly_analysis \<Rightarrow> string list" where
  "weekly_tables downloads_path analysis =
     ['''', ''```button'', ''name Open Downloads Folder '', ''type link'',
      ''action file:///'' @ downloads_path, ''```'', '''',
      ''##  Top 15 Largest Files'', ''''] @
     (if largest_files analysis \<noteq> []
      then [''| File | Size | Date | Delete |'', ''|------|------|------|--------|''] @
           map largest_row (largest_files analysis)
      else [''*No files found*'']) @
     ['''', ''##  Files from Last Week'', ''''] @
     (if recent_files analysis \<noteq> []
      then [''*'' @ string_of_nat (length (recent_files analysis)) @
              '' files modified in the last 7 days*'', '''',
            ''| File | Size | Date |'', ''|------|------|------|''] @
           map file_row (recent_files analysis)
      else [''*No files modified in the last 7 days*'']) @
     ['''', ''##  Subfolders'', ''''] @
     (if subfolders analysis \<noteq> []
      then [''| Folder | Files | Total Size | Created |'',
            ''|--------|-------|------------|---------|''] @
           map folder_row (subfolders analysis)
      else [''*No subfolders found*'']) @
     ['''', ''##  15 Oldest Files'', ''''] @
     (if oldest_files analysis \<noteq> []
      then [''| File | Size | Date |'', ''|------|------|------|''] @
           map file_row (oldest_files analysis)
      else [''*No files found*'']) @
     ['''']"

text \<open>
  The lines printed, and the exception that ended the printing, if any: a summary line is
  printed only after its f-string was evaluated, and reading a key the dictionary lacks
  raises \<^verbatim>\<open>KeyError\<close>.
\<close>

definition generate_markdown_report :: "string \<Rightarrow> weekly_analysis \<Rightarrow> string list \<times> py_error option" where
  "generate_markdown_report downloads_path analysis =
     (let head =
            [''# Downloads Weekly Review'', '''', ''## Summary'', '''',
             ''- **Total files:** '' @ format_commas (total_files analysis),
             ''- **Date range:** '' @ str_or_None (oldest_date analysis) @ '' to '' @
               str_or_None (newest_date analysis)]
      in case total_size_formatted analysis of
           None \<Rightarrow> (head, Some (KeyError ''total_size_formatted''))
         | Some sum_fmt \<Rightarrow>
             (case average_size_formatted analysis of
                None \<Rightarrow>
                  (head @ [''- **Total size:** '' @ sum_fmt],
                   Some (KeyError ''average_size_formatted''))
              | Some avg_fmt \<Rightarrow>
                  (head @ [''- **Total size:** '' @ sum_fmt,
                           ''- **Average file size:** '' @ avg_fmt] @
                   weekly_tables downloads_path analysis, None)))"

subsection \<open>\<^verbatim>\<open>generate_markdown_report\<close> of the summary report\<close>

text \<open>\<^verbatim>\<open>(count / total_files) * 100\<close> formatted with \<^verbatim>\<open>.1f\<close> and a percent sign.\<close>

definition percentage :: "int \<Rightarrow> int \<Rightarrow> py_error + string" where
  "percentage c n_files =
     (case py_truediv c n_files of
        Inl e \<Rightarrow> Inl e
      | Inr q \<Rightarrow> (case py_float (q * 100) of Inl e \<Rightarrow> Inl e | Inr p \<Rightarrow> Inr (format_1f p @ ''%'')))"

definition summary_largest_row :: "nat \<times> csv_row \<Rightarrow> string" where
  "summary_largest_row = (\<lambda>(i, file_info).
     ''| '' @ string_of_nat i @ '' | `'' @ escape_pipes (filename file_info) @ ''` | '' @
     size_formatted file_info @ '' | '' @ modified_date file_info @ '' |'')"

definition type_row :: "int \<Rightarrow> string group_info \<Rightarrow> py_error + string" where
  "type_row n_files type_info =
     (case percentage (group_count type_info) n_files of
        Inl e \<Rightarrow> Inl e
      | Inr pct \<Rightarrow>
          Inr (''| `'' @
               (if group_key type_info \<noteq> ''(no extension)'' then group_key type_info
                else ''*no extension*'') @
               ''` | '' @ format_commas (group_count type_info) @ '' | '' @
               group_total_size_formatted type_info @ '' | '' @ pct @ '' |''))"

definition year_row :: "int \<Rightarrow> nat group_info \<Rightarrow> py_error + string" where
  "year_row n_files year_info =
     (case percentage (group_count year_info) n_files of
        Inl e \<Rightarrow> Inl e
      | Inr pct \<Rightarrow>
          Inr (''| '' @ string_of_nat (group_key year_info) @ '' | '' @
               format_commas (group_count year_info) @ '' | '' @
               group_total_size_formatted year_info @ '' | '' @ pct @ '' |''))"

definition extension_tag :: "string group_info \<Rightarrow> string" where
  "extension_tag type_info =
     (let ext = (if take 1 (group_key type_info) = ''.''
                 then filter (\<lambda>c. c \<noteq> CHR ''.'') (group_key type_info)
                 else group_key type_info)
      in if ext \<noteq> ''(no extension)'' then ''#'' @ ext @ '' '' else '''')"

text \<open>
  The lines of \<^verbatim>\<open>markdown_content\<close>, or the exception raised while it is built;
  \<open>timestamp\<close> is \<^verbatim>\<open>datetime.now().strftime('%Y-%m-%d %H:%M:%S')\<close>. Writing the
  lines to the output file is not modelled.
\<close>

definition generate_summary_report :: "string \<Rightarrow> summary_analysis \<Rightarrow> py_error + string list" where
  "generate_summary_report timestamp analysis =
     (let head =
            [''# File Census Summary Report'', '''', ''Generated on: '' @ timestamp, '''',
             ''## Overview'', '''',
             ''- **Total Files**: '' @ format_commas (total_files analysis)]
      in case total_size_formatted analysis of
           None \<Rightarrow> Inl (KeyError ''total_size_formatted'')
         | Some sum_fmt \<Rightarrow>
             (case map_err (type_row (total_files analysis)) (take 20 (file_types analysis)) of
                Inl e \<Rightarrow> Inl e
              | Inr type_rows \<Rightarrow>
                  (case map_err (year_row (total_files analysis)) (files_by_year analysis) of
                     Inl e \<Rightarrow> Inl e
                   | Inr year_rows \<Rightarrow>
                       Inr (head @
                            [''- **Total Size**: '' @ sum_fmt @ '' ('' @
                               format_commas (total_size analysis) @ '' bytes)'', '''',
                             ''## Top 10 Largest Files'', '''',
                             ''| Rank | Filename | Size | Modified Date |'',
                             ''|------|----------|------|---------------|''] @
                            map summary_largest_row
                              (zip [1..<Suc (length (largest_files analysis))]
                                 (largest_files analysis)) @
                            ['''', ''## File Type Breakdown'', '''',
                             ''| Extension | Count | Total Size | Percentage |'',
                             ''|-----------|-------|------------|------------|''] @
                            type_rows @
                            (if 20 < length (file_types analysis)
                             then [''| *...and '' @
                                   string_of_nat (length (file_types analysis) - 20) @
                                   '' more* | | | |'']
                             else []) @
                            ['''', ''## Files by Year'', '''',
                             ''| Year | Count | Total Size | Percentage |'',
                             ''|------|-------|------------|------------|''] @
                            year_rows @
                            ['''', ''## File Extensions Summary'', '''',
                             concat (map extension_tag (take 10 (file_types analysis))),
                             '''', ''---'', '''', ''*Report generated by File Census Tool*'']))))"

section \<open>The file system\<close>

text \<open>
  What a scan sees of the file system, fixed for the duration of the scan. \<open>File n st\<close>
  is a regular file whose \<^verbatim>\<open>stat()\<close> returns size and modification time \<open>st\<close>, or
  raises \<^verbatim>\<open>OSError\<close> (\<open>None\<close>); \<open>Dir n ctime readable entries\<close> a directory with
  its entries in listing order, \<open>readable\<close> false when listing it is denied; \<open>Other n\<close>
  an entry that is neither; \<open>Denied n\<close> an entry whose \<^verbatim>\<open>is_file()\<close> and
  \<^verbatim>\<open>is_dir()\<close> raise \<^verbatim>\<open>PermissionError\<close> (as \<^verbatim>\<open>exists()\<close> does, when the
  entry is the scan root). The scan root is an \<open>fs_node option\<close>, \<open>None\<close> when the path
  does not exist. Symbolic links are not modelled.
\<close>

datatype fs_node =
    File string "(int \<times> rat) option"
  | Dir string rat bool "fs_node list"
  | Other string
  | Denied string

fun node_name :: "fs_node \<Rightarrow> string" where
  "node_name (File n st) = n"
| "node_name (Dir n c r es) = n"
| "node_name (Other n) = n"
| "node_name (Denied n) = n"

fun is_file :: "fs_node \<Rightarrow> py_error + bool" where
  "is_file (File n st) = Inr True"
| "is_file (Denied n) = Inl PermissionError"
| "is_file _ = Inr False"

fun is_dir :: "fs_node \<Rightarrow> py_error + bool" where
  "is_dir (Dir n c r es) = Inr True"
| "is_dir (Denied n) = Inl PermissionError"
| "is_dir _ = Inr False"

text \<open>\<^verbatim>\<open>file_path.stat()\<close> of a regular file: \<^verbatim>\<open>st_size\<close> and \<^verbatim>\<open>st_mtime\<close>.\<close>

fun file_stat :: "fs_node \<Rightarrow> py_error + (int \<times> rat)" where
  "file_stat (File n (Some st)) = Inr st"
| "file_stat _ = Inl OSError"

definition join_path :: "string \<Rightarrow> string \<Rightarrow> string" where
  "join_path p n = (if p = [] then n else p @ ''/'' @ n)"

text \<open>
  \<^verbatim>\<open>p.rglob('*')\<close>, as CPython 3.8 to 3.12 enumerate it: the entries of the directory,
  then the same for each of its subdirectories in turn; a directory that may not be listed
  contributes nothing (pathlib swallows the \<^verbatim>\<open>PermissionError\<close>). An entry is paired
  with its path relative to the scan root.
\<close>

fun rglob :: "string \<Rightarrow> fs_node \<Rightarrow> (string \<times> fs_node) list" where
  "rglob rel (Dir n c readable es) =
     (if readable
      then map (\<lambda>e. (join_path rel (node_name e), e)) es @
           concat (map (\<lambda>e. rglob (join_path rel (node_name e)) e) es)
      else [])"
| "rglob rel (File n st) = []"
| "rglob rel (Other n) = []"
| "rglob rel (Denied n) = []"

text \<open>The exceptions \<^verbatim>\<open>except (OSError, PermissionError)\<close> catches.\<close>

definition is_oserror :: "py_error \<Rightarrow> bool" where
  "is_oserror e \<longleftrightarrow> e \<in> set [OSError, PermissionError, FileNotFoundError, NotADirectoryError]"

text \<open>The exceptions \<^verbatim>\<open>except Exception\<close> catches.\<close>

fun is_exception :: "py_error \<Rightarrow> bool" where
  "is_exception KeyboardInterrupt = False"
| "is_exception (SystemExit n) = False"
| "is_exception _ = True"

section \<open>\<^verbatim>\<open>scan_downloads_folder\<close> (weekly review)\<close>

text \<open>The body of the inner \<^verbatim>\<open>try\<close> of the file loop, for a regular file.\<close>

definition file_record ::
  "(rat \<Rightarrow> py_error + datetime) \<Rightarrow> string \<Rightarrow> string \<Rightarrow> fs_node \<Rightarrow> py_error + file_info" where
  "file_record fromtimestamp root_path rel node =
     (case file_stat node of
        Inl e \<Rightarrow> Inl e
      | Inr (st_size, st_mtime) \<Rightarrow>
          (case format_file_size (PInt st_size) of
             Inl e \<Rightarrow> Inl e
           | Inr size_fmt \<Rightarrow>
               (case format_date fromtimestamp st_mtime of
                  Inl e \<Rightarrow> Inl e
                | Inr date_fmt \<Rightarrow>
                    Inr \<lparr>size_bytes = st_size, size_formatted = size_fmt,
                         name = node_name node, modified_time = st_mtime,
                         modified_formatted = date_fmt,
                         path = join_path root_path rel, relative_path = rel\<rparr>)))"

fun scan_files ::
  "(rat \<Rightarrow> py_error + datetime) \<Rightarrow> string \<Rightarrow> (string \<times> fs_node) list \<Rightarrow>
   py_error + file_info list" where
  "scan_files fromtimestamp root_path [] = Inr []"
| "scan_files fromtimestamp root_path ((rel, node) # rest) =
     (case is_file node of
        Inl e \<Rightarrow> Inl e
      | Inr False \<Rightarrow> scan_files fromtimestamp root_path rest
      | Inr True \<Rightarrow>
          (case file_record fromtimestamp root_path rel node of
             Inl e \<Rightarrow>
               if is_oserror e then scan_files fromtimestamp root_path rest else Inl e
           | Inr file_info \<Rightarrow>
               (case scan_files fromtimestamp root_path rest of
                  Inl e \<Rightarrow> Inl e
                | Inr files_data \<Rightarrow> Inr (file_info # files_data))))"

text \<open>
  The counting loop over a subfolder: \<^verbatim>\<open>file_count\<close> and \<^verbatim>\<open>total_size\<close> of the
  regular files whose \<^verbatim>\<open>stat()\<close> succeeds.
\<close>

fun count_files :: "(string \<times> fs_node) list \<Rightarrow> py_error + (int \<times> int)" where
  "count_files [] = Inr (0, 0)"
| "count_files ((rel, node) # rest) =
     (case is_file node of
        Inl e \<Rightarrow> Inl e
      | Inr False \<Rightarrow> count_files rest
      | Inr True \<Rightarrow>
          (case count_files rest of
             Inl e \<Rightarrow> Inl e
           | Inr (cnt, sz) \<Rightarrow>
               (case file_stat node of
                  Inl e \<Rightarrow> if is_oserror e then Inr (cnt, sz) else Inl e
                | Inr (st_size, st_mtime) \<Rightarrow> Inr (cnt + 1, sz + st_size))))"

text \<open>
  The body of the \<^verbatim>\<open>try\<close> of the subfolder loop, for a directory: \<open>None\<close> when the
  folder has no files and no record is appended.
\<close>

fun subfolder_record ::
  "(rat \<Rightarrow> py_error + datetime) \<Rightarrow> string \<Rightarrow> fs_node \<Rightarrow> py_error + subfolder_info option" where
  "subfolder_record fromtimestamp root_path (Dir n st_ctime readable es) =
     (case count_files (rglob n (Dir n st_ctime readable es)) of
        Inl e \<Rightarrow> Inl e
      | Inr (cnt, sz) \<Rightarrow>
          if 0 < cnt
          then (case format_file_size (PInt sz) of
                  Inl e \<Rightarrow> Inl e
                | Inr size_fmt \<Rightarrow>
                    (case format_date fromtimestamp st_ctime of
                       Inl e \<Rightarrow> Inl e
                     | Inr date_fmt \<Rightarrow>
                         Inr (Some \<lparr>folder_name = n, file_count = cnt, folder_total_size = sz,
                                    folder_total_size_formatted = size_fmt,
                                    created_time = st_ctime, created_formatted = date_fmt,
                                    folder_path = join_path root_path n\<rparr>)))
          else Inr None)"
| "subfolder_record fromtimestamp root_path _ = Inr None"

fun scan_subfolders ::
  "(rat \<Rightarrow> py_error + datetime) \<Rightarrow> string \<Rightarrow> fs_node list \<Rightarrow> py_error + subfolder_info list" where
  "scan_subfolders fromtimestamp root_path [] = Inr []"
| "scan_subfolders fromtimestamp root_path (e # es) =
     (case is_dir e of
        Inl err \<Rightarrow> Inl err
      | Inr False \<Rightarrow> scan_subfolders fromtimestamp root_path es
      | Inr True \<Rightarrow>
          (case subfolder_record fromtimestamp root_path e of
             Inl err \<Rightarrow>
               if is_oserror err then scan_subfolders fromtimestamp root_path es else Inl err
           | Inr None \<Rightarrow> scan_subfolders fromtimestamp root_path es
           | Inr (Some subfolder_info) \<Rightarrow>
               (case scan_subfolders fromtimestamp root_path es of
                  Inl err \<Rightarrow> Inl err
                | Inr subfolders_data \<Rightarrow> Inr (subfolder_info # subfolders_data))))"

text \<open>The outer handler: \<^verbatim>\<open>except PermissionError\<close> prints and calls \<^verbatim>\<open>sys.exit(1)\<close>.\<close>

definition permission_exit :: "py_error \<Rightarrow> py_error" where
  "permission_exit e = (if e = PermissionError then SystemExit 1 else e)"

fun scan_downloads_folder ::
  "(rat \<Rightarrow> py_error + datetime) \<Rightarrow> string \<Rightarrow> fs_node option \<Rightarrow>
   py_error + (file_info list \<times> subfolder_info list)" where
  "scan_downloads_folder fromtimestamp root_path None = Inl (SystemExit 1)"
| "scan_downloads_folder fromtimestamp root_path (Some (Dir n c readable es)) =
     (case scan_files fromtimestamp root_path (rglob [] (Dir n c readable es)) of
        Inl e \<Rightarrow> Inl (permission_exit e)
      | Inr files_data \<Rightarrow>
          if \<not> readable then Inl (SystemExit 1)
          else (case scan_subfolders fromtimestamp root_path es of
                  Inl e \<Rightarrow> Inl (permission_exit e)
                | Inr subfolders_data \<Rightarrow> Inr (files_data, subfolders_data)))"
| "scan_downloads_folder fromtimestamp root_path (Some (Denied n)) = Inl PermissionError"
| "scan_downloads_folder fromtimestamp root_path (Some (File n st)) = Inl (SystemExit 1)"
| "scan_downloads_folder fromtimestamp root_path (Some (Other n)) = Inl (SystemExit 1)"

text \<open>
  \<^verbatim>\<open>main\<close> of the weekly review: the lines printed to standard output and the exit
  status. An exception other than \<^verbatim>\<open>SystemExit\<close> is reported and ends the process
  with status 1. \<open>downloads_folder\<close> is the folder scanned, \<open>home_downloads\<close> the
  result of \<^verbatim>\<open>get_downloads_folder()\<close>, which the report links to.
\<close>

fun exit_code :: "py_error \<Rightarrow> nat" where
  "exit_code (SystemExit n) = n"
| "exit_code _ = 1"

definition weekly_review_main ::
  "rat \<Rightarrow> (rat \<Rightarrow> py_error + datetime) \<Rightarrow> string \<Rightarrow> string \<Rightarrow> fs_node option \<Rightarrow>
   string list \<times> nat" where
  "weekly_review_main now fromtimestamp home_downloads downloads_folder scan_root =
     (case scan_downloads_folder fromtimestamp downloads_folder scan_root of
        Inl e \<Rightarrow> ([], exit_code e)
      | Inr (files_data, subfolders_data) \<Rightarrow>
          (case analyze_files now fromtimestamp files_data subfolders_data of
             Inl e \<Rightarrow> ([], exit_code e)
           | Inr analysis \<Rightarrow>
               (case generate_markdown_report home_downloads analysis of
                  (printed, None) \<Rightarrow> (printed, 0)
                | (printed, Some e) \<Rightarrow> (printed, exit_code e))))"

text \<open>
  In the words of the specification: a subdirectory "contains at least one readable
  regular file anywhere in its subtree".
\<close>

fun is_readable_file :: "fs_node \<Rightarrow> bool" where
  "is_readable_file (File n (Some st)) = True"
| "is_readable_file _ = False"

fun has_readable_file :: "fs_node \<Rightarrow> bool" where
  "has_readable_file (Dir n c readable es) =
     (readable \<and> (\<exists>e\<in>set es. is_readable_file e \<or> has_readable_file e))"
| "has_readable_file _ = False"

text \<open>
  Formatting the creation time of a directory fails with an error of the operating system
  (as \<^verbatim>\<open>datetime.fromtimestamp\<close> does on Windows for a time before 1970).
\<close>

fun ctime_unreadable :: "(rat \<Rightarrow> py_error + datetime) \<Rightarrow> fs_node \<Rightarrow> bool" where
  "ctime_unreadable fromtimestamp (Dir n st_ctime readable es) =
     (case fromtimestamp st_ctime of Inl e \<Rightarrow> is_oserror e | Inr dt \<Rightarrow> False)"
| "ctime_unreadable fromtimestamp _ = False"

section \<open>CSV writing (\<^verbatim>\<open>csv.DictWriter\<close>, default dialect)\<close>

definition dquote :: char where
  "dquote = CHR 0x22"

definition CR :: char where
  "CR = CHR 0x0D"

definition LF :: char where
  "LF = CHR 0x0A"

text \<open>
  With \<^verbatim>\<open>QUOTE_MINIMAL\<close> a field is quoted when it contains the delimiter, the quote
  character or a character of the line terminator; quote characters are doubled. A row
  that consists of one empty field is written as two quote characters.
\<close>

definition needs_quoting :: "string \<Rightarrow> bool" where
  "needs_quoting s = (\<exists>c\<in>set s. c \<in> set [CHR '','', dquote, CR, LF])"

definition quote_field :: "string \<Rightarrow> string" where
  "quote_field s =
     (if needs_quoting s
      then [dquote] @ concat (map (\<lambda>c. if c = dquote then [dquote, dquote] else [c]) s) @ [dquote]
      else s)"

fun join_fields :: "string list \<Rightarrow> string" where
  "join_fields [] = []"
| "join_fields [f] = f"
| "join_fields (f # g # fs) = f @ '','' @ join_fields (g # fs)"

definition csv_writerow :: "string list \<Rightarrow> string" where
  "csv_writerow row =
     (if row = [[]] then [dquote, dquote] else join_fields (map quote_field row)) @ [CR, LF]"

definition fieldnames :: "string list" where
  "fieldnames =
     [''filename'', ''full_path'', ''size_bytes'', ''size_formatted'', ''modified_date'',
      ''extension'']"

text \<open>\<^verbatim>\<open>writer.writerow(file_info)\<close>: the values in the order of \<^verbatim>\<open>fieldnames\<close>.\<close>

definition census_fields :: "census_info \<Rightarrow> string list" where
  "census_fields file_info =
     [filename file_info, full_path file_info, string_of_int (size_bytes file_info),
      size_formatted file_info, modified_date file_info, extension file_info]"

definition csv_text_of :: "census_info list \<Rightarrow> string" where
  "csv_text_of rows = csv_writerow fieldnames @ concat (map (csv_writerow \<circ> census_fields) rows)"

section \<open>\<^verbatim>\<open>scan_folder\<close>, \<^verbatim>\<open>create_csv_report\<close> and \<^verbatim>\<open>main\<close> (file census)\<close>

text \<open>\<^verbatim>\<open>file_path.suffix\<close>: from the last dot, unless it is the first or the last character.\<close>

definition py_suffix :: "string \<Rightarrow> string" where
  "py_suffix n =
     (if CHR ''.'' \<in> set n
      then (let (stem, ext) = rsplit_dot n
            in if stem \<noteq> [] \<and> ext \<noteq> [] then CHR ''.'' # ext else [])
      else [])"

text \<open>The body of the inner \<^verbatim>\<open>try\<close> of the second pass, up to the \<^verbatim>\<open>yield\<close>.\<close>

definition census_record ::
  "(string \<Rightarrow> string) \<Rightarrow> (rat \<Rightarrow> py_error + datetime) \<Rightarrow> string \<Rightarrow> string \<Rightarrow> fs_node \<Rightarrow> py_error + census_info" where
  "census_record str_lower fromtimestamp root_path rel node =
     (case file_stat node of
        Inl e \<Rightarrow> Inl e
      | Inr (st_size, st_mtime) \<Rightarrow>
          (case format_file_size (PInt st_size) of
             Inl e \<Rightarrow> Inl e
           | Inr size_fmt \<Rightarrow>
               (case fromtimestamp st_mtime of
                  Inl e \<Rightarrow> Inl e
                | Inr dt \<Rightarrow>
                    Inr \<lparr>size_bytes = st_size, size_formatted = size_fmt,
                         filename = node_name node, full_path = join_path root_path rel,
                         modified_date = strftime_seconds dt,
                         extension = str_lower (py_suffix (node_name node))\<rparr>)))"

text \<open>
  A user interrupt is an asynchronous \<^verbatim>\<open>KeyboardInterrupt\<close>; a run has at most one,
  raised at one of these points. \<open>InCountingPass\<close>: in the first pass of
  \<^verbatim>\<open>scan_folder\<close> (made only with \<^verbatim>\<open>show_progress\<close>). \<open>InScan i\<close>: in the second
  pass, while the generator handles entry \<open>i\<close> of the traversal, before it yields for
  that entry. \<open>BeforeWrite i\<close> and \<open>AfterWrite i\<close>: in the loop of
  \<^verbatim>\<open>create_csv_report\<close>, the generator suspended at the \<^verbatim>\<open>yield\<close> for entry \<open>i\<close>,
  before and after the row is written.
\<close>

datatype interrupt = NoInterrupt | InCountingPass | InScan nat | BeforeWrite nat | AfterWrite nat

text \<open>
  How the iteration over the generator ends: it is exhausted, it returns from its
  \<^verbatim>\<open>except KeyboardInterrupt\<close> handler, or an exception leaves the body of the
  \<^verbatim>\<open>with\<close> statement of \<^verbatim>\<open>create_csv_report\<close>.
\<close>

datatype scan_end = Completed | InterruptCaught | Raised py_error

text \<open>
  The second pass of \<^verbatim>\<open>scan_folder\<close> interleaved with the loop of
  \<^verbatim>\<open>create_csv_report\<close> that consumes it: the rows written, and how the iteration
  ends. \<open>i\<close> is the index of the entry at the head of the list.
\<close>

fun census_scan ::
  "(string \<Rightarrow> string) \<Rightarrow> (rat \<Rightarrow> py_error + datetime) \<Rightarrow> string \<Rightarrow> interrupt \<Rightarrow> nat \<Rightarrow> (string \<times> fs_node) list \<Rightarrow>
   census_info list \<times> scan_end" where
  "census_scan str_lower fromtimestamp root_path sigint i [] = ([], Completed)"
| "census_scan str_lower fromtimestamp root_path sigint i ((rel, node) # rest) =
     (if sigint = InScan i then ([], InterruptCaught)
      else case is_file node of
             Inl e \<Rightarrow> ([], Raised e)
           | Inr False \<Rightarrow> census_scan str_lower fromtimestamp root_path sigint (i + 1) rest
           | Inr True \<Rightarrow>
               (case census_record str_lower fromtimestamp root_path rel node of
                  Inl e \<Rightarrow>
                    if is_oserror e
                    then census_scan str_lower fromtimestamp root_path sigint (i + 1) rest
                    else ([], Raised e)
                | Inr file_info \<Rightarrow>
                    if sigint = BeforeWrite i then ([], Raised KeyboardInterrupt)
                    else if sigint = AfterWrite i then ([file_info], Raised KeyboardInterrupt)
                    else (case census_scan str_lower fromtimestamp root_path sigint (i + 1) rest of
                            (rows, ending) \<Rightarrow> (file_info # rows, ending))))"

text \<open>
  \<^verbatim>\<open>scan_folder\<close> is a generator: its body, the checks of the root included, runs
  when \<^verbatim>\<open>create_csv_report\<close> asks for the first record.
\<close>

fun scan_folder ::
  "(string \<Rightarrow> string) \<Rightarrow> (rat \<Rightarrow> py_error + datetime) \<Rightarrow> string \<Rightarrow> fs_node option \<Rightarrow> bool \<Rightarrow> interrupt \<Rightarrow>
   census_info list \<times> scan_end" where
  "scan_folder str_lower fromtimestamp root_path None show_progress sigint = ([], Raised FileNotFoundError)"
| "scan_folder str_lower fromtimestamp root_path (Some (Dir n c readable es)) show_progress sigint =
     (if show_progress \<and> sigint = InCountingPass then ([], Raised KeyboardInterrupt)
      else census_scan str_lower fromtimestamp root_path sigint 0 (rglob [] (Dir n c readable es)))"
| "scan_folder str_lower fromtimestamp root_path (Some (Denied n)) show_progress sigint =
     ([], Raised PermissionError)"
| "scan_folder str_lower fromtimestamp root_path (Some (File n st)) show_progress sigint =
     ([], Raised NotADirectoryError)"
| "scan_folder str_lower fromtimestamp root_path (Some (Other n)) show_progress sigint =
     ([], Raised NotADirectoryError)"

text \<open>
  The state the process leaves behind: the text of the output file (\<open>None\<close> when it was
  not created), whether the file was closed, and the exit status.
\<close>

record census_outcome =
  csv_text :: "string option"
  csv_closed :: bool
  exit_status :: nat

text \<open>
  \<^verbatim>\<open>create_csv_report\<close>: the output file and the exception that leaves the function,
  if any. \<open>open_error\<close> is the exception of \<^verbatim>\<open>open(output_path, 'w')\<close>, if it
  raises. The \<^verbatim>\<open>with\<close> statement closes the file however its body ends; the handlers
  turn every \<^verbatim>\<open>Exception\<close> into \<^verbatim>\<open>sys.exit(1)\<close>.
\<close>

definition create_csv_report ::
  "(string \<Rightarrow> string) \<Rightarrow> (rat \<Rightarrow> py_error + datetime) \<Rightarrow> string \<Rightarrow> fs_node option \<Rightarrow> py_error option \<Rightarrow> bool \<Rightarrow>
   interrupt \<Rightarrow> (string option \<times> bool) \<times> py_error option" where
  "create_csv_report str_lower fromtimestamp root_path scan_root open_error show_progress sigint =
     (case open_error of
        Some e \<Rightarrow> ((None, False), Some (if is_exception e then SystemExit 1 else e))
      | None \<Rightarrow>
          (case scan_folder str_lower fromtimestamp root_path scan_root show_progress sigint of
             (rows, Completed) \<Rightarrow> ((Some (csv_text_of rows), True), None)
           | (rows, InterruptCaught) \<Rightarrow> ((Some (csv_text_of rows), True), None)
           | (rows, Raised e) \<Rightarrow>
               ((Some (csv_text_of rows), True),
                Some (if is_exception e then SystemExit 1 else e))))"

text \<open>
  \<^verbatim>\<open>main\<close> of the file census: status 0 when \<^verbatim>\<open>create_csv_report\<close> returns, the
  status of \<^verbatim>\<open>sys.exit\<close>, and 1 for \<^verbatim>\<open>KeyboardInterrupt\<close> and any other exception.
\<close>

definition census_main ::
  "(string \<Rightarrow> string) \<Rightarrow> (rat \<Rightarrow> py_error + datetime) \<Rightarrow> string \<Rightarrow> fs_node option \<Rightarrow> py_error option \<Rightarrow> bool \<Rightarrow>
   interrupt \<Rightarrow> census_outcome" where
  "census_main str_lower fromtimestamp root_path scan_root open_error show_progress sigint =
     (case create_csv_report str_lower fromtimestamp root_path scan_root open_error show_progress sigint of
        ((content, flushed), None) \<Rightarrow>
          \<lparr>csv_text = content, csv_closed = flushed, exit_status = 0\<rparr>
      | ((content, flushed), Some e) \<Rightarrow>
          \<lparr>csv_text = content, csv_closed = flushed, exit_status = exit_code e\<rparr>)"


section \<open>\<^verbatim>\<open>read_csv_data\<close> (summary report)\<close>

text \<open>
  Characters are the code points below 256. The summary report opens the file with
  \<^verbatim>\<open>open(csv_file, 'r', encoding='utf-8')\<close>, without \<^verbatim>\<open>newline=''\<close>: the text layer
  translates every \<^verbatim>\<open>\r\n\<close> and every remaining \<^verbatim>\<open>\r\<close> to \<^verbatim>\<open>\n\<close> before the
  \<^verbatim>\<open>csv\<close> module sees a line (universal newlines). The census writes the file with
  \<^verbatim>\<open>newline=''\<close>, so its text reaches the file as \<^verbatim>\<open>csv_text_of\<close> gives it.
\<close>

fun universal_newlines :: "string \<Rightarrow> string" where
  "universal_newlines [] = []"
| "universal_newlines [c] = (if c = CR then [LF] else [c])"
| "universal_newlines (c # d # cs) =
     (if c = CR \<and> d = LF then LF # universal_newlines cs
      else if c = CR then LF # universal_newlines (d # cs)
      else c # universal_newlines (d # cs))"

text \<open>
  Iterating over the file gives its lines, each with its final \<^verbatim>\<open>\n\<close>; \<open>line\<close> holds the
  characters of the current line, last first.
\<close>

fun file_lines :: "string \<Rightarrow> string \<Rightarrow> string list" where
  "file_lines line [] = (if line = [] then [] else [rev line])"
| "file_lines line (c # cs) =
     (if c = LF then rev (c # line) # file_lines [] cs else file_lines (c # line) cs)"

subsection \<open>\<^verbatim>\<open>csv.reader\<close>, default dialect\<close>

text \<open>
  The parser of \<^verbatim>\<open>Modules/_csv.c\<close> for the dialect \<^verbatim>\<open>excel\<close>: delimiter \<^verbatim>\<open>,\<close>,
  quote character \<^verbatim>\<open>"\<close>, doubled quotes, no escape character, initial spaces kept, not
  strict. Its state is the state of the automaton, the characters of the current field
  and the fields of the current record. The states \<^verbatim>\<open>ESCAPED_CHAR\<close>,
  \<^verbatim>\<open>ESCAPE_IN_QUOTED_FIELD\<close> and \<^verbatim>\<open>AFTER_ESCAPED_CRNL\<close> need an escape character and
  are left out.
\<close>

datatype parser_state =
  START_RECORD | START_FIELD | IN_FIELD | IN_QUOTED_FIELD | QUOTE_IN_QUOTED_FIELD | EAT_CRNL

type_synonym parser = "parser_state \<times> string \<times> string list"

definition field_limit :: nat where
  "field_limit = 131072"

text \<open>\<^verbatim>\<open>parse_add_char\<close> and \<^verbatim>\<open>parse_save_field\<close>, with the state that follows.\<close>

definition parse_add_char ::
  "parser_state \<Rightarrow> string \<Rightarrow> string list \<Rightarrow> char \<Rightarrow> py_error + parser" where
  "parse_add_char next_state fld flds c =
     (if field_limit \<le> length fld then Inl CsvError else Inr (next_state, fld @ [c], flds))"

definition parse_save_field :: "parser_state \<Rightarrow> string \<Rightarrow> string list \<Rightarrow> py_error + parser" where
  "parse_save_field next_state fld flds = Inr (next_state, [], flds @ [fld])"

text \<open>
  \<^verbatim>\<open>parse_process_char\<close>; \<open>None\<close> is the end-of-line marker that the reader feeds after
  the characters of each line. The case \<^verbatim>\<open>START_RECORD\<close> falls through to the case
  \<^verbatim>\<open>START_FIELD\<close>, which is \<open>start_field\<close>.
\<close>

definition start_field :: "string \<Rightarrow> string list \<Rightarrow> char option \<Rightarrow> py_error + parser" where
  "start_field fld flds c =
     (case c of
        None \<Rightarrow> parse_save_field START_RECORD fld flds
      | Some ch \<Rightarrow>
          if ch = LF \<or> ch = CR then parse_save_field EAT_CRNL fld flds
          else if ch = dquote then Inr (IN_QUOTED_FIELD, fld, flds)
          else if ch = CHR '','' then parse_save_field START_FIELD fld flds
          else parse_add_char IN_FIELD fld flds ch)"

fun parse_process_char :: "parser \<Rightarrow> char option \<Rightarrow> py_error + parser" where
  "parse_process_char (START_RECORD, fld, flds) c =
     (case c of
        None \<Rightarrow> Inr (START_RECORD, fld, flds)
      | Some ch \<Rightarrow>
          if ch = LF \<or> ch = CR then Inr (EAT_CRNL, fld, flds) else start_field fld flds c)"
| "parse_process_char (START_FIELD, fld, flds) c = start_field fld flds c"
| "parse_process_char (IN_FIELD, fld, flds) c =
     (case c of
        None \<Rightarrow> parse_save_field START_RECORD fld flds
      | Some ch \<Rightarrow>
          if ch = LF \<or> ch = CR then parse_save_field EAT_CRNL fld flds
          else if ch = CHR '','' then parse_save_field START_FIELD fld flds
          else parse_add_char IN_FIELD fld flds ch)"
| "parse_process_char (IN_QUOTED_FIELD, fld, flds) c =
     (case c of
        None \<Rightarrow> Inr (IN_QUOTED_FIELD, fld, flds)
      | Some ch \<Rightarrow>
          if ch = dquote then Inr (QUOTE_IN_QUOTED_FIELD, fld, flds)
          else parse_add_char IN_QUOTED_FIELD fld flds ch)"
| "parse_process_char (QUOTE_IN_QUOTED_FIELD, fld, flds) c =
     (case c of
        None \<Rightarrow> parse_save_field START_RECORD fld flds
      | Some ch \<Rightarrow>
          if ch = dquote then parse_add_char IN_QUOTED_FIELD fld flds ch
          else if ch = CHR '','' then parse_save_field START_FIELD fld flds
          else if ch = LF \<or> ch = CR then parse_save_field EAT_CRNL fld flds
          else parse_add_char IN_FIELD fld flds ch)"
| "parse_process_char (EAT_CRNL, fld, flds) c =
     (case c of
        None \<Rightarrow> Inr (START_RECORD, fld, flds)
      | Some ch \<Rightarrow> if ch = LF \<or> ch = CR then Inr (EAT_CRNL, fld, flds) else Inl CsvError)"

text \<open>The characters of one line, one after the other.\<close>

fun parse_line :: "parser \<Rightarrow> string \<Rightarrow> py_error + parser" where
  "parse_line p [] = Inr p"
| "parse_line p (c # cs) =
     (case parse_process_char p (Some c) of Inl e \<Rightarrow> Inl e | Inr p' \<Rightarrow> parse_line p' cs)"

text \<open>
  \<^verbatim>\<open>Reader_iternext\<close>, called until the lines are used up: a record is complete when the
  automaton is back in \<^verbatim>\<open>START_RECORD\<close> after the end-of-line marker, and the parser is
  reset for the next record. When the lines end inside a record, the fields read so far
  are returned if the current field is not empty or a quoted field is open. The result
  has the rows up to the first error, and the error.
\<close>

fun csv_reader :: "parser \<Rightarrow> string list \<Rightarrow> string list list \<times> py_error option" where
  "csv_reader (st, fld, flds) [] =
     (if fld \<noteq> [] \<or> st = IN_QUOTED_FIELD then ([flds @ [fld]], None) else ([], None))"
| "csv_reader p (line # lines) =
     (case parse_line p line of
        Inl e \<Rightarrow> ([], Some e)
      | Inr p' \<Rightarrow>
          (case parse_process_char p' None of
             Inl e \<Rightarrow> ([], Some e)
           | Inr (st, fld, flds) \<Rightarrow>
               if st = START_RECORD
               then (let (rows, e) = csv_reader (START_RECORD, [], []) lines in (flds # rows, e))
               else csv_reader (st, fld, flds) lines))"

subsection \<open>\<^verbatim>\<open>csv.DictReader\<close>\<close>

text \<open>
  The first row gives the field names; rows without fields are skipped. A row is the
  dictionary \<^verbatim>\<open>dict(zip(fieldnames, row))\<close>, where a later one of two equal field names
  wins; after that every field name beyond the length of the row gets the value
  \<^verbatim>\<open>None\<close>. Here a row is kept as
  the pair of the field names and the values, and \<open>dict_get\<close> is the subscription
  \<^verbatim>\<open>row[key]\<close>.
\<close>

definition dict_reader ::
  "string list list \<times> py_error option \<Rightarrow> (string list \<times> string list) list \<times> py_error option" where
  "dict_reader r =
     (case r of
        ([], e) \<Rightarrow> ([], e)
      | (header # rows, e) \<Rightarrow> (map (Pair header) (filter (\<lambda>row. row \<noteq> []) rows), e))"

definition dict_get :: "string list \<times> string list \<Rightarrow> string \<Rightarrow> py_error + string option" where
  "dict_get d key =
     (case d of (header, row) \<Rightarrow>
        if key \<in> set (drop (length row) header) then Inr None
        else (case map_of (rev (zip header row)) key of
                Some v \<Rightarrow> Inr (Some v)
              | None \<Rightarrow> Inl (KeyError key)))"

subsection \<open>\<^verbatim>\<open>int(string)\<close>\<close>

text \<open>
  Surrounding white space is dropped (the ASCII white space, and the other Unicode
  white space, which \<^verbatim>\<open>int\<close> first turns into blanks), a sign may follow, then decimal
  digits with single underscores between them, at most 4300 digits (the default of
  \<^verbatim>\<open>sys.get_int_max_str_digits()\<close>).
\<close>

definition int_space :: "char \<Rightarrow> bool" where
  "int_space c \<longleftrightarrow>
     c \<in> set [CHR 0x09, CHR 0x0A, CHR 0x0B, CHR 0x0C, CHR 0x0D, CHR 0x20, CHR 0x85, CHR 0xA0]"

definition strip_with :: "(char \<Rightarrow> bool) \<Rightarrow> string \<Rightarrow> string" where
  "strip_with sp s = rev (dropWhile sp (rev (dropWhile sp s)))"

definition digit_value :: "char \<Rightarrow> nat option" where
  "digit_value c = map_of (zip ''0123456789'' [0, 1, 2, 3, 4, 5, 6, 7, 8, 9]) c"

definition nat_of_digits :: "string \<Rightarrow> nat" where
  "nat_of_digits ds = foldl (\<lambda>n c. 10 * n + the (digit_value c)) 0 ds"

fun underscores_ok :: "string \<Rightarrow> bool" where
  "underscores_ok [] = True"
| "underscores_ok [c] = (c \<noteq> CHR ''_'')"
| "underscores_ok (c # d # cs) = (\<not> (c = CHR ''_'' \<and> d = CHR ''_'') \<and> underscores_ok (d # cs))"

definition py_int :: "string \<Rightarrow> py_error + int" where
  "py_int s =
     (let t = strip_with int_space s;
          negative = (t \<noteq> [] \<and> hd t = CHR ''-'');
          body = (if t \<noteq> [] \<and> (hd t = CHR ''-'' \<or> hd t = CHR ''+'') then tl t else t);
          digits = filter (\<lambda>c. c \<noteq> CHR ''_'') body
      in if body = [] \<or> hd body = CHR ''_'' \<or> \<not> underscores_ok body \<or>
            (\<exists>c\<in>set digits. digit_value c = None) \<or> 4300 < length digits
         then Inl ValueError
         else Inr (if negative then - int (nat_of_digits digits) else int (nat_of_digits digits)))"

subsection \<open>\<^verbatim>\<open>datetime.strptime(string, '%Y-%m-%d %H:%M:%S')\<close>\<close>

text \<open>
  \<^verbatim>\<open>_strptime\<close> matches the string against a regular expression made from the format
  and then builds the \<^verbatim>\<open>datetime\<close>. Each directive is an alternation whose alternatives
  are tried in order; with this format the first alternative that matches at a position
  is the one of the match, since what follows a directive is never a digit. A directive
  is given here as the list of its alternatives, an alternative as the list of the sets
  of characters it accepts, one set for each position.
\<close>

definition one_of :: "string \<Rightarrow> char \<Rightarrow> bool" where
  "one_of cs c \<longleftrightarrow> c \<in> set cs"

definition any_digit :: "char \<Rightarrow> bool" where
  "any_digit = one_of ''0123456789''"

fun match_alternative :: "(char \<Rightarrow> bool) list \<Rightarrow> string \<Rightarrow> (string \<times> string) option" where
  "match_alternative [] s = Some ([], s)"
| "match_alternative (p # ps) [] = None"
| "match_alternative (p # ps) (c # cs) =
     (if p c
      then (case match_alternative ps cs of None \<Rightarrow> None | Some (m, r) \<Rightarrow> Some (c # m, r))
      else None)"

fun match_directive :: "(char \<Rightarrow> bool) list list \<Rightarrow> string \<Rightarrow> (string \<times> string) option" where
  "match_directive [] s = None"
| "match_directive (a # as) s =
     (case match_alternative a s of None \<Rightarrow> match_directive as s | Some r \<Rightarrow> Some r)"

definition directive_Y :: "(char \<Rightarrow> bool) list list" where
  "directive_Y = [[any_digit, any_digit, any_digit, any_digit]]"

definition directive_m :: "(char \<Rightarrow> bool) list list" where
  "directive_m =
     [[one_of ''1'', one_of ''012''],
      [one_of ''0'', one_of ''123456789''],
      [one_of ''123456789'']]"

definition directive_d :: "(char \<Rightarrow> bool) list list" where
  "directive_d =
     [[one_of ''3'', one_of ''01''],
      [one_of ''12'', any_digit],
      [one_of ''0'', one_of ''123456789''],
      [one_of ''123456789''],
      [one_of '' '', one_of ''123456789'']]"

definition directive_H :: "(char \<Rightarrow> bool) list list" where
  "directive_H =
     [[one_of ''2'', one_of ''0123''],
      [one_of ''01'', any_digit],
      [any_digit]]"

definition directive_M :: "(char \<Rightarrow> bool) list list" where
  "directive_M = [[one_of ''012345'', any_digit], [any_digit]]"

definition directive_S :: "(char \<Rightarrow> bool) list list" where
  "directive_S =
     [[one_of ''6'', one_of ''01''],
      [one_of ''012345'', any_digit],
      [any_digit]]"

text \<open>The blank of the format stands for \<^verbatim>\<open>\s+\<close>, one or more white space characters.\<close>

definition regex_space :: "char \<Rightarrow> bool" where
  "regex_space c \<longleftrightarrow>
     c \<in> set [CHR 0x09, CHR 0x0A, CHR 0x0B, CHR 0x0C, CHR 0x0D, CHR 0x1C, CHR 0x1D, CHR 0x1E,
               CHR 0x1F, CHR 0x20, CHR 0x85, CHR 0xA0]"

definition match_spaces :: "string \<Rightarrow> string option" where
  "match_spaces s = (if s \<noteq> [] \<and> regex_space (hd s) then Some (dropWhile regex_space s) else None)"

definition match_literal :: "char \<Rightarrow> string \<Rightarrow> string option" where
  "match_literal a s = (if s \<noteq> [] \<and> hd s = a then Some (tl s) else None)"

text \<open>A number matched by a directive; the blank that \<^verbatim>\<open>%d\<close> admits is dropped by \<^verbatim>\<open>int\<close>.\<close>

definition matched_number :: "string \<Rightarrow> nat" where
  "matched_number m = nat_of_digits (filter any_digit m)"

definition is_leap :: "nat \<Rightarrow> bool" where
  "is_leap y \<longleftrightarrow> y mod 4 = 0 \<and> (y mod 100 \<noteq> 0 \<or> y mod 400 = 0)"

definition days_in_month :: "nat \<Rightarrow> nat \<Rightarrow> nat" where
  "days_in_month y m =
     (if m = 2 then (if is_leap y then 29 else 28)
      else if m \<in> set [4, 6, 9, 11] then 30 else 31)"

text \<open>
  The constructor of \<^verbatim>\<open>datetime\<close> refuses the year 0, a day that the month does not
  have, and the seconds 60 and 61 that \<^verbatim>\<open>%S\<close> admits.
\<close>

definition make_datetime :: "nat \<Rightarrow> nat \<Rightarrow> nat \<Rightarrow> nat \<Rightarrow> nat \<Rightarrow> nat \<Rightarrow> py_error + datetime" where
  "make_datetime y m d hh mm ss =
     (if 1 \<le> y \<and> y \<le> 9999 \<and> 1 \<le> m \<and> m \<le> 12 \<and> 1 \<le> d \<and> d \<le> days_in_month y m \<and>
         hh \<le> 23 \<and> mm \<le> 59 \<and> ss \<le> 59
      then Inr \<lparr>year = y, month = m, day = d, hour = hh, minute = mm, second = ss\<rparr>
      else Inl ValueError)"

text \<open>A part of the format that does not match makes \<^verbatim>\<open>strptime\<close> raise \<^verbatim>\<open>ValueError\<close>.\<close>

definition matching :: "'a option \<Rightarrow> ('a \<Rightarrow> py_error + 'b) \<Rightarrow> py_error + 'b" where
  "matching m f = (case m of None \<Rightarrow> Inl ValueError | Some x \<Rightarrow> f x)"

definition strptime :: "string \<Rightarrow> py_error + datetime" where
  "strptime s =
     matching (match_directive directive_Y s) (\<lambda>(y, s1).
     matching (match_literal CHR ''-'' s1) (\<lambda>s2.
     matching (match_directive directive_m s2) (\<lambda>(m, s3).
     matching (match_literal CHR ''-'' s3) (\<lambda>s4.
     matching (match_directive directive_d s4) (\<lambda>(d, s5).
     matching (match_spaces s5) (\<lambda>s6.
     matching (match_directive directive_H s6) (\<lambda>(hh, s7).
     matching (match_literal CHR '':'' s7) (\<lambda>s8.
     matching (match_directive directive_M s8) (\<lambda>(mm, s9).
     matching (match_literal CHR '':'' s9) (\<lambda>s10.
     matching (match_directive directive_S s10) (\<lambda>(ss, s11).
       if s11 \<noteq> [] then Inl ValueError
       else make_datetime (matched_number y) (matched_number m) (matched_number d)
              (matched_number hh) (matched_number mm) (matched_number ss))))))))))))"

subsection \<open>\<^verbatim>\<open>read_csv_data\<close>\<close>

text \<open>
  The body of the loop: the size and the date of a row are converted, and the row is kept.
  The other four columns are read by the stages that follow. A row that lacks one of them,
  or has \<^verbatim>\<open>None\<close> for it, has no record here: the model fails at that row, whereas
  the code keeps the dictionary as it is. The files that the file census writes have all
  six columns in every row.
\<close>

definition get_string :: "string list \<times> string list \<Rightarrow> string \<Rightarrow> py_error + string" where
  "get_string d key =
     (case dict_get d key of
        Inl e \<Rightarrow> Inl e
      | Inr None \<Rightarrow> Inl TypeError
      | Inr (Some v) \<Rightarrow> Inr v)"

definition and_then :: "py_error + 'a \<Rightarrow> ('a \<Rightarrow> py_error + 'b) \<Rightarrow> py_error + 'b" where
  "and_then r f = (case r of Inl e \<Rightarrow> Inl e | Inr x \<Rightarrow> f x)"

definition convert_row :: "string list \<times> string list \<Rightarrow> py_error + csv_row" where
  "convert_row d =
     and_then (get_string d ''size_bytes'') (\<lambda>size_text.
     and_then (py_int size_text) (\<lambda>size.
     and_then (get_string d ''modified_date'') (\<lambda>date_text.
     and_then (strptime date_text) (\<lambda>dt.
     and_then (get_string d ''filename'') (\<lambda>fname.
     and_then (get_string d ''full_path'') (\<lambda>fpath.
     and_then (get_string d ''size_formatted'') (\<lambda>size_fmt.
     and_then (get_string d ''extension'') (\<lambda>ext.
       Inr \<lparr>size_bytes = size, size_formatted = size_fmt, filename = fname, full_path = fpath,
            modified_date = date_text, extension = ext, modified_datetime = dt\<rparr>))))))))"

fun convert_rows :: "(string list \<times> string list) list \<Rightarrow> py_error + csv_row list" where
  "convert_rows [] = Inr []"
| "convert_rows (d # ds) =
     (case convert_row d of
        Inl e \<Rightarrow> Inl e
      | Inr r \<Rightarrow> (case convert_rows ds of Inl e \<Rightarrow> Inl e | Inr rs \<Rightarrow> Inr (r # rs)))"

text \<open>
  The rows of a file with the given content; an error of the \<^verbatim>\<open>csv\<close> reader comes
  after the rows that it has delivered.
\<close>

definition read_rows :: "string \<Rightarrow> py_error + csv_row list" where
  "read_rows content =
     (case dict_reader (csv_reader (START_RECORD, [], []) (file_lines [] (universal_newlines content))) of
        (ds, e) \<Rightarrow>
          (case convert_rows ds of
             Inl e' \<Rightarrow> Inl e'
           | Inr rs \<Rightarrow> (case e of None \<Rightarrow> Inr rs | Some e' \<Rightarrow> Inl e')))"

text \<open>
  \<^verbatim>\<open>read_csv_data\<close>: \<open>None\<close> is a file that does not exist. Every exception of the
  reading is an \<^verbatim>\<open>Exception\<close> and ends the process with status 1.
\<close>

definition read_csv_data :: "string option \<Rightarrow> py_error + csv_row list" where
  "read_csv_data csv_file =
     (case csv_file of
        None \<Rightarrow> Inl (SystemExit 1)
      | Some content \<Rightarrow>
          (case read_rows content of Inl e \<Rightarrow> Inl (SystemExit 1) | Inr files_data \<Rightarrow> Inr files_data))"

section \<open>Invocations in a process environment\<close>




section \<open>Specification predicates and example inputs\<close>

text \<open>
  \<open>stable_descending key xs ys\<close>: \<open>ys\<close> holds the elements of \<open>xs\<close> ordered by
  descending key, elements of equal key in the order they have in \<open>xs\<close>.
\<close>

definition stable_descending :: "('a \<Rightarrow> 'k::linorder) \<Rightarrow> 'a list \<Rightarrow> 'a list \<Rightarrow> bool" where
  "stable_descending key xs ys \<longleftrightarrow>
     mset ys = mset xs \<and> sorted_wrt (\<lambda>a b. key b \<le> key a) ys \<and>
     (\<forall>k. filter (\<lambda>y. key y = k) ys = filter (\<lambda>y. key y = k) xs)"

text \<open>
  An environment for the examples: UTC as the local time zone, on the time stamps of
  January 1970. A time stamp before 1970 is refused with an \<^verbatim>\<open>OSError\<close>, as
  \<^verbatim>\<open>datetime.fromtimestamp\<close> does on Windows (\<^verbatim>\<open>[Errno 22] Invalid argument\<close>), the
  platform the program addresses; the examples use no time stamp after January 1970.
\<close>

definition utc_january_1970 :: "rat \<Rightarrow> py_error + datetime" where
  "utc_january_1970 t =
     (if 0 \<le> t \<and> t < 2678400
      then (let s = nat \<lfloor>t\<rfloor>
            in Inr \<lparr>year = 1970, month = 1, day = 1 + s div 86400,
                    hour = (s mod 86400) div 3600, minute = (s mod 3600) div 60,
                    second = s mod 60\<rparr>)
      else Inl OSError)"

text \<open>\<^verbatim>\<open>str.lower()\<close> on strings of ASCII characters.\<close>

definition ascii_lower_char :: "char \<Rightarrow> char" where
  "ascii_lower_char c =
     (case map_of (zip ''ABCDEFGHIJKLMNOPQRSTUVWXYZ'' ''abcdefghijklmnopqrstuvwxyz'') c of
        None \<Rightarrow> c | Some l \<Rightarrow> l)"

definition ascii_lower :: "string \<Rightarrow> string" where
  "ascii_lower s = map ascii_lower_char s"


definition example_file :: "string \<Rightarrow> int \<Rightarrow> string \<Rightarrow> rat \<Rightarrow> string \<Rightarrow> file_info" where
  "example_file n sz sz_fmt mtime mtime_fmt =
     \<lparr>size_bytes = sz, size_formatted = sz_fmt, name = n, modified_time = mtime,
      modified_formatted = mtime_fmt, path = ''/dl/'' @ n, relative_path = n\<rparr>"

definition old_small :: file_info where
  "old_small = example_file ''old.txt'' 512 ''512.0 B'' 100 ''1970-01-01 00:01''"

definition recent_big :: file_info where
  "recent_big = example_file ''recent.iso'' 1536 ''1.5 KB'' 100000 ''1970-01-02 03:46''"

definition future_big :: file_info where
  "future_big = example_file ''future.iso'' 1536 ''1.5 KB'' 800000 ''1970-01-10 06:13''"

definition recent_small :: file_info where
  "recent_small = example_file ''new.txt'' 512 ''512.0 B'' 650000 ''1970-01-08 12:33''"

definition example_files :: "file_info list" where
  "example_files = [old_small, recent_big, future_big, recent_small]"

definition example_row :: "string \<Rightarrow> string \<Rightarrow> int \<Rightarrow> string \<Rightarrow> string \<Rightarrow> datetime \<Rightarrow> csv_row" where
  "example_row n ext sz sz_fmt date dt =
     \<lparr>size_bytes = sz, size_formatted = sz_fmt, filename = n, full_path = ''/dl/'' @ n,
      modified_date = date, extension = ext, modified_datetime = dt\<rparr>"

definition example_rows :: "csv_row list" where
  "example_rows =
     [example_row ''old.txt'' ''.txt'' 512 ''512.0 B'' ''1970-01-01 00:01:40''
        \<lparr>year = 1970, month = 1, day = 1, hour = 0, minute = 1, second = 40\<rparr>,
      example_row ''recent.ISO'' ''.iso'' 1536 ''1.5 KB'' ''1971-01-02 03:46:40''
        \<lparr>year = 1971, month = 1, day = 2, hour = 3, minute = 46, second = 40\<rparr>,
      example_row ''future.iso'' ''.iso'' 1536 ''1.5 KB'' ''1970-01-10 06:13:20''
        \<lparr>year = 1970, month = 1, day = 10, hour = 6, minute = 13, second = 20\<rparr>]"

definition example_tree :: fs_node where
  "example_tree =
     Dir ''dl'' 50 True
       [File ''a.txt'' (Some (2048, 100000)),
        Dir ''sub'' 60 True [File ''b.TXT'' (Some (512, 200))],
        Dir ''empty'' 70 True [Dir ''deeper'' 80 True []],
        File ''c.txt'' (Some (1536, 650000))]"

text \<open>A subdirectory created before 1970, with one readable file in it.\<close>

definition example_old_tree :: fs_node where
  "example_old_tree =
     Dir ''dl'' 50 True [Dir ''old'' (- 1) True [File ''b.txt'' (Some (512, 200))]]"

text \<open>
  A folder with a file whose name contains a carriage return, which a POSIX file system
  allows, and the text of the CSV file that the file census writes for it.
\<close>

definition example_cr_tree :: fs_node where
  "example_cr_tree =
     Dir ''dl'' 50 True
       [File ''a.txt'' (Some (2048, 100000)),
        File (''b'' @ [CR] @ ''c.txt'') (Some (512, 200))]"

definition example_cr_csv :: string where
  "example_cr_csv =
     ''filename,full_path,size_bytes,size_formatted,modified_date,extension'' @ [CR, LF] @
     ''a.txt,/dl/a.txt,2048,2.0 KB,1970-01-02 03:46:40,.txt'' @ [CR, LF] @
     [dquote] @ ''b'' @ [CR] @ ''c.txt'' @ [dquote] @ '','' @
     [dquote] @ ''/dl/b'' @ [CR] @ ''c.txt'' @ [dquote] @
     '',512,512.0 B,1970-01-01 00:03:20,.txt'' @ [CR, LF]"

section \<open>Properties\<close>

subsection \<open>Binary64 conversion of integers\<close>

lemma rhe_div_exact: "0 < b \<Longrightarrow> rhe_div (k * b) b = k"
  by (simp add: rhe_div_def)

lemma rhe_div_ge: "0 < b \<Longrightarrow> a div b \<le> rhe_div a b"
  by (simp add: rhe_div_def Let_def)

lemma bitlen_one: "bitlen 1 = 1"
  by (simp add: bitlen_alt_def)

lemma binade_of_int:
  assumes "0 < n"
  shows "binade (of_int n) = bitlen n - 1"
proof -
  have b: "2 ^ nat (bitlen n - 1) \<le> n"
    using bitlen_bounds[OF assms] by simp
  have "1 \<le> bitlen n"
    using assms by (simp add: bitlen_alt_def)
  then show ?thesis
    using b by (simp add: binade_def bitlen_one)
qed

lemma bitlen_less:
  assumes "0 < n" "n < 2 ^ k"
  shows "bitlen n \<le> int k"
proof -
  have "2 ^ nat (bitlen n - 1) \<le> n"
    using bitlen_bounds[OF assms(1)] by simp
  with assms(2) have "(2::int) ^ nat (bitlen n - 1) < 2 ^ k"
    by linarith
  then have "nat (bitlen n - 1) < k"
    by simp
  then show ?thesis
    by linarith
qed

lemma bitlen_greater:
  assumes "0 < n" "2 ^ k \<le> n"
  shows "int k < bitlen n"
proof -
  have "n < 2 ^ nat (bitlen n)"
    using bitlen_bounds[OF assms(1)] by simp
  with assms(2) have "(2::int) ^ k < 2 ^ nat (bitlen n)"
    by linarith
  then have "k < nat (bitlen n)"
    by simp
  then show ?thesis
    by linarith
qed

lemma round_binary64_of_int_exact:
  assumes "0 \<le> n" "n < 2 ^ 53"
  shows "round_binary64 (of_int n) = of_int n"
proof (cases "n = 0")
  case True
  then show ?thesis
    by (simp add: round_binary64_def)
next
  case False
  then have pos: "0 < n"
    using assms by simp
  have le: "bitlen n \<le> 53"
    using bitlen_less[OF pos assms(2)] by simp
  have ge: "1 \<le> bitlen n"
    using pos by (simp add: bitlen_alt_def)
  define k where "k = nat (53 - bitlen n)"
  have u: "max (binade \<bar>of_int n\<bar> - 52) (- 1074) = - int k"
    using pos le ge binade_of_int[OF pos] by (simp add: k_def abs_of_pos)
  show ?thesis
  proof (cases "k = 0")
    case True
    then show ?thesis
      using False u rhe_div_exact[of 1 n]
      by (simp add: round_binary64_def pow2_def Let_def)
  next
    case False
    then have "rhe_div (n * 2 ^ k) 1 = n * 2 ^ k"
      using rhe_div_exact[of 1 "n * 2 ^ k"] by simp
    then show ?thesis
      using False u \<open>n \<noteq> 0\<close>
      by (simp add: round_binary64_def pow2_def Let_def)
  qed
qed

lemma py_float_of_int_exact:
  assumes "0 \<le> n" "n < 2 ^ 53"
  shows "py_float (of_int n) = Inr (of_int n)"
proof (cases "n = 0")
  case True
  then show ?thesis
    by (simp add: py_float_def round_binary64_def)
next
  case False
  then have pos: "0 < n"
    using assms by simp
  have le: "bitlen n \<le> 53"
    using bitlen_less[OF pos assms(2)] by simp
  show ?thesis
    using round_binary64_of_int_exact[OF assms] binade_of_int[OF pos] le pos
    by (simp add: py_float_def abs_of_pos)
qed

lemma le_div_int:
  assumes "0 < (c::int)" "a * c \<le> b"
  shows "a \<le> b div c"
proof -
  have "(a * c) div c \<le> b div c"
    using assms by (intro zdiv_mono1) simp_all
  then show ?thesis
    using assms(1) by simp
qed

lemma round_binary64_of_int_big:
  assumes "2 ^ K \<le> n" "K = 53"
  shows "2 ^ K \<le> round_binary64 (of_int n)"
proof -
  have "(0::int) < 2 ^ K"
    by simp
  then have pos: "0 < n"
    using assms(1) by linarith
  have bb: "2 ^ nat (bitlen n - 1) \<le> n"
    using bitlen_bounds[OF pos] by simp
  have ge: "54 \<le> bitlen n"
    using bitlen_greater[OF pos assms(1)] assms(2) by simp
  define k where "k = nat (bitlen n - 53)"
  have k: "1 \<le> k" "nat (bitlen n - 1) = 52 + k"
    using ge by (simp_all add: k_def)
  have u: "max (binade \<bar>of_int n\<bar> - 52) (- 1074) = int k"
    using pos ge binade_of_int[OF pos] by (simp add: k_def abs_of_pos)
  have "2 ^ 52 * 2 ^ k \<le> n"
    using bb k(2) by (simp add: power_add)
  then have "(2::int) ^ 52 \<le> n div 2 ^ k"
    by (intro le_div_int) simp_all
  then have "2 ^ 52 \<le> rhe_div n (2 ^ k)"
    using rhe_div_ge[of "2 ^ k" n] by simp
  then have "of_int (2 ^ 52) \<le> (of_int (rhe_div n (2 ^ k)) :: rat)"
    by (simp only: of_int_le_iff)
  then have m: "(2::rat) ^ 52 \<le> of_int (rhe_div n (2 ^ k))"
    by simp
  have p: "(2::rat) ^ 1 \<le> 2 ^ k"
    using k(1) by (intro power_increasing) simp_all
  have "(2::rat) ^ 52 * 2 ^ 1 \<le> of_int (rhe_div n (2 ^ k)) * 2 ^ k"
    using m p by (intro mult_mono) simp_all
  then have "(2::rat) ^ K \<le> of_int (rhe_div n (2 ^ k)) * 2 ^ k"
    using assms(2) by simp
  moreover have "round_binary64 (of_int n) = of_int (rhe_div n (2 ^ k)) * 2 ^ k"
    using pos u by (simp add: round_binary64_def pow2_def Let_def)
  ultimately show ?thesis
    by simp
qed

lemma py_float_of_int_ge_1024:
  assumes "0 \<le> n" "py_float (of_int n) = Inr v"
  shows "1024 \<le> n \<longleftrightarrow> 1024 \<le> v"
proof (cases "n < 2 ^ 53")
  case True
  then show ?thesis
    using py_float_of_int_exact[OF assms(1)] assms(2) by simp
next
  case False
  then have n: "2 ^ 53 \<le> n"
    by simp
  have "2 ^ 53 \<le> round_binary64 (of_int n)"
    using round_binary64_of_int_big[OF n] by simp
  moreover have "v = round_binary64 (of_int n)"
    using assms(2) by (simp add: py_float_def Let_def split: if_splits)
  ultimately show ?thesis
    using n by simp
qed

subsection \<open>The size loop in closed form\<close>

lemma size_loop_float_from_1:
  assumes "1024 \<le> v"
  shows "size_loop (PFloat (v / 1024)) 1 =
           Inr (PFloat (v / 1024 ^ spec_unit_index v), spec_unit_index v)"
  using assms by (simp add: size_loop.simps spec_unit_index_def size_names_def)

lemma format_file_size_int:
  assumes "0 < n" "py_float (of_int n) = Inr v"
  shows "format_file_size (PInt n) =
           Inr (format_1f (v / 1024 ^ spec_unit_index v) @ '' '' @ size_names ! spec_unit_index v)"
proof (cases "1024 \<le> n")
  case True
  then have v: "1024 \<le> v"
    using py_float_of_int_ge_1024[OF _ assms(2)] assms(1) by simp
  have "size_loop (PInt n) 0 = size_loop (PFloat (v / 1024)) 1"
    using True assms(2) by (subst size_loop.simps) (simp add: size_names_def)
  then show ?thesis
    using assms(1) size_loop_float_from_1[OF v] by (simp add: format_file_size_def)
next
  case False
  then have v: "v < 1024"
    using py_float_of_int_ge_1024[OF _ assms(2)] assms(1) by simp
  have "size_loop (PInt n) 0 = Inr (PInt n, 0)"
    using False by (subst size_loop.simps) simp
  then show ?thesis
    using assms v by (simp add: format_file_size_def spec_unit_index_def)
qed

subsection \<open>Digits\<close>

lemma is_digit_digit_char: "d < 10 \<Longrightarrow> is_digit (digit_char d)"
proof -
  assume "d < 10"
  then have "d \<in> {0, 1, 2, 3, 4, 5, 6, 7, 8, 9}"
    by auto
  then show ?thesis
    by (auto simp: is_digit_def digit_char_def)
qed

lemma string_of_nat_digits: "c \<in> set (string_of_nat n) \<Longrightarrow> is_digit c"
proof (induction n rule: string_of_nat.induct)
  case (1 n)
  show ?case
  proof (cases "n < 10")
    case True
    then show ?thesis
      using "1.prems" is_digit_digit_char[of n] by (simp add: string_of_nat.simps[of n])
  next
    case False
    then show ?thesis
      using "1.prems" "1.IH" is_digit_digit_char[of "n mod 10"]
      by (auto simp: string_of_nat.simps[of n])
  qed
qed

lemma string_of_nat_nonempty: "string_of_nat n \<noteq> []"
  by (simp add: string_of_nat.simps[of n])

lemma string_of_nat_one_digit: "n < 10 \<Longrightarrow> string_of_nat n = [digit_char n]"
  by (simp add: string_of_nat.simps[of n])

lemma format_1f_shape:
  assumes "0 \<le> x"
  shows "\<exists>ds d. format_1f x = ds @ ''.'' @ [d] \<and> ds \<noteq> [] \<and> (\<forall>c\<in>set (d # ds). is_digit c)"
proof -
  define t where "t = nat (round_half_even (x * 10))"
  have "format_1f x = string_of_nat (t div 10) @ ''.'' @ [digit_char (t mod 10)]"
    using assms by (simp add: format_1f_def t_def[symmetric] Let_def string_of_nat_one_digit)
  then show ?thesis
    using string_of_nat_nonempty string_of_nat_digits is_digit_digit_char[of "t mod 10"]
    by (intro exI[of _ "string_of_nat (t div 10)"] exI[of _ "digit_char (t mod 10)"]) auto
qed

lemmas eval_1f =
  format_1f_def round_half_even_def rhe_div_def string_of_nat.simps digit_char_def
  spec_unit_index_def size_names_def

lemma py_float_pos:
  assumes "0 < n" "py_float (of_int n) = Inr v" shows "0 < v"
proof (cases "n < 2 ^ 53")
  case True
  then show ?thesis using py_float_of_int_exact[of n] assms by simp
next
  case False
  then have n: "2 ^ 53 \<le> n" by simp
  have "2 ^ 53 \<le> round_binary64 (of_int n)" using round_binary64_of_int_big[OF n] by simp
  moreover have "v = round_binary64 (of_int n)"
    using assms(2) by (simp add: py_float_def Let_def split: if_splits)
  ultimately show ?thesis by simp
qed

subsection \<open>The byte-size formatting contract\<close>

text \<open>
  Claim C4. \<^verbatim>\<open>format_file_size\<close> satisfies the shared formatting contract: 0 gives
  \<^verbatim>\<open>0 B\<close>, 1023 gives \<^verbatim>\<open>1023.0 B\<close>, 1024 gives \<^verbatim>\<open>1.0 KB\<close>, 1536 gives
  \<^verbatim>\<open>1.5 KB\<close> and \<open>1024^4\<close> gives \<^verbatim>\<open>1.0 TB\<close>; and for every positive byte count
  (one that converts to a float \<open>v\<close> without overflow) the value is divided by 1024 while it
  is at least 1024 and a larger unit among B, KB, MB, GB, TB remains, and the quotient is
  written with exactly one fractional digit, followed by a space and the unit. Byte
  counts below \<open>2^53\<close> convert to a float without any rounding.
\<close>

theorem format_file_size_contract:
  "format_file_size (PInt 0) = Inr ''0 B'' \<and>
   format_file_size (PInt 1023) = Inr ''1023.0 B'' \<and>
   format_file_size (PInt 1024) = Inr ''1.0 KB'' \<and>
   format_file_size (PInt 1536) = Inr ''1.5 KB'' \<and>
   format_file_size (PInt (1024 ^ 4)) = Inr ''1.0 TB'' \<and>
   (\<forall>n v. 0 < n \<and> py_float (of_int n) = Inr v \<longrightarrow>
      format_file_size (PInt n) =
        Inr (format_1f (v / 1024 ^ spec_unit_index v) @ '' '' @ size_names ! spec_unit_index v) \<and>
      (\<exists>ds d. format_1f (v / 1024 ^ spec_unit_index v) = ds @ ''.'' @ [d] \<and> ds \<noteq> [] \<and>
         (\<forall>c\<in>set (d # ds). is_digit c))) \<and>
   (\<forall>n. 0 \<le> n \<and> n < 2 ^ 53 \<longrightarrow> py_float (of_int n) = Inr (of_int n))"
proof (intro conjI allI impI)
  show "format_file_size (PInt 0) = Inr ''0 B''"
    by (simp add: format_file_size_def)
  show "format_file_size (PInt 1023) = Inr ''1023.0 B''"
    using format_file_size_int[of 1023 1023] py_float_of_int_exact[of 1023]
    by (simp add: eval_1f)
  show "format_file_size (PInt 1024) = Inr ''1.0 KB''"
    using format_file_size_int[of 1024 1024] py_float_of_int_exact[of 1024]
    by (simp add: eval_1f)
  show "format_file_size (PInt 1536) = Inr ''1.5 KB''"
    using format_file_size_int[of 1536 1536] py_float_of_int_exact[of 1536]
    by (simp add: eval_1f)
  show "format_file_size (PInt (1024 ^ 4)) = Inr ''1.0 TB''"
    using format_file_size_int[of "1024 ^ 4" "1024 ^ 4"] py_float_of_int_exact[of "1024 ^ 4"]
    by (simp add: eval_1f)
next
  fix n :: int and v
  assume a: "0 < n \<and> py_float (of_int n) = Inr v"
  then show "format_file_size (PInt n) =
        Inr (format_1f (v / 1024 ^ spec_unit_index v) @ '' '' @ size_names ! spec_unit_index v)"
    using format_file_size_int by blast
  have "0 < v" using a py_float_pos by blast
  then have "0 \<le> v / 1024 ^ spec_unit_index v" by simp
  then show "\<exists>ds d. format_1f (v / 1024 ^ spec_unit_index v) = ds @ ''.'' @ [d] \<and> ds \<noteq> [] \<and>
         (\<forall>c\<in>set (d # ds). is_digit c)"
    by (rule format_1f_shape)
next
  fix n :: int
  assume "0 \<le> n \<and> n < 2 ^ 53"
  then show "py_float (of_int n) = Inr (of_int n)"
    using py_float_of_int_exact by blast
qed

theorem format_file_size_contract_witness:
  "0 < (2048::int) \<and> py_float (of_int 2048) = Inr 2048 \<and>
   format_file_size (PInt 2048) = Inr ''2.0 KB''"
proof -
  have c: "\<forall>n v. 0 < n \<and> py_float (of_int n) = Inr v \<longrightarrow>
      format_file_size (PInt n) =
        Inr (format_1f (v / 1024 ^ spec_unit_index v) @ '' '' @ size_names ! spec_unit_index v) \<and>
      (\<exists>ds d. format_1f (v / 1024 ^ spec_unit_index v) = ds @ ''.'' @ [d] \<and> ds \<noteq> [] \<and>
         (\<forall>c\<in>set (d # ds). is_digit c))"
   and e: "\<forall>n. 0 \<le> n \<and> n < 2 ^ 53 \<longrightarrow> py_float (of_int n) = Inr (of_int n)"
    using format_file_size_contract by blast+
  have p: "py_float (of_int 2048) = Inr 2048"
    using e[rule_format, of 2048] by simp
  have "format_file_size (PInt 2048) =
        Inr (format_1f (2048 / 1024 ^ spec_unit_index 2048) @ '' '' @ size_names ! spec_unit_index 2048)"
    using c[rule_format, of 2048 2048] p by simp
  then show ?thesis using p by (simp add: eval_1f)
qed

subsection \<open>Filename truncation\<close>

lemma rsplit_dot_append:
  "CHR ''.'' \<notin> set ext \<Longrightarrow> rsplit_dot (stem @ CHR ''.'' # ext) = (stem, ext)"
  by (simp add: rsplit_dot_def takeWhile_append dropWhile_append)

lemma truncate_filename_ext3:
  assumes "length (stem @ ''.'' @ ext) = 50" "length ext = 3" "CHR ''.'' \<notin> set ext"
  shows "truncate_filename (stem @ ''.'' @ ext) 40 = take 33 stem @ ''...'' @ ext"
  using assms by (simp add: truncate_filename_def rsplit_dot_append py_slice_to_def Let_def)

lemma truncate_filename_no_ext:
  assumes "CHR ''.'' \<notin> set fname" "40 < length fname"
  shows "truncate_filename fname 40 = take 37 fname @ ''...''"
  using assms by (simp add: truncate_filename_def py_slice_to_def)

lemma split_last_dot:
  assumes "CHR ''.'' \<in> set s"
  shows "\<exists>stem ext. s = stem @ CHR ''.'' # ext \<and> CHR ''.'' \<notin> set ext"
  using split_list_last[OF assms] by blast

lemma py_suffix_split:
  assumes "CHR ''.'' \<notin> set ext"
  shows "py_suffix (stem @ CHR ''.'' # ext) = (if stem \<noteq> [] \<and> ext \<noteq> [] then CHR ''.'' # ext else [])"
  using assms by (simp add: py_suffix_def rsplit_dot_append)

lemma truncate_filename_dotfile:
  assumes "CHR ''.'' \<notin> set ext" "40 \<le> length ext"
  shows "truncate_filename (CHR ''.'' # ext) 40 = take 37 (CHR ''.'' # ext) @ ''...''"
  using assms rsplit_dot_append[of ext "[]"]
  by (simp add: truncate_filename_def py_slice_to_def Let_def)

lemma truncate_filename_no_suffix:
  assumes "py_suffix fname = []" "40 < length fname" "last fname \<noteq> CHR ''.''"
  shows "truncate_filename fname 40 = take 37 fname @ ''...''"
proof (cases "CHR ''.'' \<in> set fname")
  case False
  then show ?thesis
    using assms(2) by (rule truncate_filename_no_ext)
next
  case True
  then obtain stem ext where f: "fname = stem @ CHR ''.'' # ext" and e: "CHR ''.'' \<notin> set ext"
    using split_last_dot by blast
  have "ext \<noteq> []"
    using assms(3) f by auto
  then have "stem = []"
    using assms(1) py_suffix_split[OF e, of stem] f by (simp split: if_splits)
  then show ?thesis
    using truncate_filename_dotfile[OF e] assms(2) f by simp
qed

lemma truncate_filename_trailing_dot:
  assumes "40 < length fname" "last fname = CHR ''.''"
  shows "truncate_filename fname 40 = take 36 fname @ ''...''"
proof -
  have ne: "fname \<noteq> []"
    using assms(1) by auto
  then have f: "fname = butlast fname @ CHR ''.'' # []"
    using assms(2) append_butlast_last_id[of fname] by simp
  have l: "40 \<le> length (butlast fname)"
    using assms(1) by simp
  have "truncate_filename (butlast fname @ CHR ''.'' # []) 40 = take 36 (butlast fname) @ ''...''"
    using l rsplit_dot_append[of "[]" "butlast fname"]
    by (simp add: truncate_filename_def py_slice_to_def Let_def)
  moreover have "take 36 (butlast fname) = take 36 fname"
    using l by (subst (2) f) simp
  ultimately show ?thesis
    using f by simp
qed

text \<open>
  Claim C8, as amended. The claim's second part fails for a name that ends in a dot,
  which has no extension either. With the limit 40, \<^verbatim>\<open>truncate_filename\<close> maps every
  50-character name that ends in a dot and a 3-character extension to at most 40
  characters that still end with the dot and the extension; it maps every name longer
  than 40 characters that has no extension (\<^verbatim>\<open>Path.suffix\<close> is empty) and does not end
  in a dot to its first 37 characters followed by \<^verbatim>\<open>...\<close>, 40 characters in all; it
  maps every name longer than 40 characters that ends in a dot to its first 36 characters
  followed by \<^verbatim>\<open>...\<close>, 39 characters in all; and it returns every name of at most 40
  characters unchanged.
\<close>

theorem truncate_filename_limit_40:
  "(\<forall>stem ext. length (stem @ ''.'' @ ext) = 50 \<and> length ext = 3 \<and> CHR ''.'' \<notin> set ext \<longrightarrow>
      length (truncate_filename (stem @ ''.'' @ ext) 40) \<le> 40 \<and>
      (\<exists>prefix. truncate_filename (stem @ ''.'' @ ext) 40 = prefix @ ''.'' @ ext)) \<and>
   (\<forall>fname. py_suffix fname = [] \<and> 40 < length fname \<and> last fname \<noteq> CHR ''.'' \<longrightarrow>
      truncate_filename fname 40 = take 37 fname @ ''...'' \<and>
      length (take 37 fname) = 37 \<and>
      length (truncate_filename fname 40) = 40) \<and>
   (\<forall>fname. 40 < length fname \<and> last fname = CHR ''.'' \<longrightarrow>
      py_suffix fname = [] \<and>
      truncate_filename fname 40 = take 36 fname @ ''...'' \<and>
      length (truncate_filename fname 40) = 39) \<and>
   (\<forall>fname. length fname \<le> 40 \<longrightarrow> truncate_filename fname 40 = fname)"
proof (intro conjI allI impI)
  fix stem ext :: string
  assume a: "length (stem @ ''.'' @ ext) = 50 \<and> length ext = 3 \<and> CHR ''.'' \<notin> set ext"
  then have t: "truncate_filename (stem @ ''.'' @ ext) 40 = take 33 stem @ ''...'' @ ext"
    using truncate_filename_ext3 by blast
  show "length (truncate_filename (stem @ ''.'' @ ext) 40) \<le> 40"
    using a t by simp
  show "\<exists>prefix. truncate_filename (stem @ ''.'' @ ext) 40 = prefix @ ''.'' @ ext"
    using t by (intro exI[of _ "take 33 stem @ ''..''"]) simp
next
  fix fname :: string
  assume a: "py_suffix fname = [] \<and> 40 < length fname \<and> last fname \<noteq> CHR ''.''"
  then show t: "truncate_filename fname 40 = take 37 fname @ ''...''"
    using truncate_filename_no_suffix by blast
  show "length (take 37 fname) = 37"
    using a by simp
  show "length (truncate_filename fname 40) = 40"
    using a t by simp
next
  fix fname :: string
  assume a: "40 < length fname \<and> last fname = CHR ''.''"
  then show t: "truncate_filename fname 40 = take 36 fname @ ''...''"
    using truncate_filename_trailing_dot by blast
  show "length (truncate_filename fname 40) = 39"
    using a t by simp
  have "fname \<noteq> []"
    using a by auto
  then have "fname = butlast fname @ CHR ''.'' # []"
    using a append_butlast_last_id[of fname] by simp
  then show "py_suffix fname = []"
    using py_suffix_split[of "[]" "butlast fname"] by simp
next
  fix fname :: string
  assume "length fname \<le> 40"
  then show "truncate_filename fname 40 = fname"
    by (simp add: truncate_filename_def)
qed

theorem truncate_filename_limit_40_witness:
  "length (replicate 46 CHR ''a'' @ ''.'' @ ''pdf'') = 50 \<and> length ''pdf'' = 3 \<and>
   CHR ''.'' \<notin> set ''pdf'' \<and>
   length (truncate_filename (replicate 46 CHR ''a'' @ ''.'' @ ''pdf'') 40) \<le> 40 \<and>
   (\<exists>prefix. truncate_filename (replicate 46 CHR ''a'' @ ''.'' @ ''pdf'') 40 = prefix @ ''.'' @ ''pdf'') \<and>
   py_suffix (replicate 41 CHR ''b'') = [] \<and> 40 < length (replicate 41 CHR ''b'') \<and>
   last (replicate 41 CHR ''b'') \<noteq> CHR ''.'' \<and>
   truncate_filename (replicate 41 CHR ''b'') 40 = replicate 37 CHR ''b'' @ ''...'' \<and>
   40 < length (replicate 49 CHR ''c'' @ ''.'') \<and> last (replicate 49 CHR ''c'' @ ''.'') = CHR ''.'' \<and>
   truncate_filename (replicate 49 CHR ''c'' @ ''.'') 40 = replicate 36 CHR ''c'' @ ''...'' \<and>
   length ''a.txt'' \<le> 40 \<and> truncate_filename ''a.txt'' 40 = ''a.txt''"
proof -
  have h1: "length (replicate 46 CHR ''a'' @ ''.'' @ ''pdf'') = 50 \<and> length ''pdf'' = 3 \<and>
      CHR ''.'' \<notin> set ''pdf''"
    by simp
  have h2: "py_suffix (replicate 41 CHR ''b'') = [] \<and> 40 < length (replicate 41 CHR ''b'') \<and>
      last (replicate 41 CHR ''b'') \<noteq> CHR ''.''"
    by (simp add: py_suffix_def)
  have h3: "40 < length (replicate 49 CHR ''c'' @ ''.'') \<and>
      last (replicate 49 CHR ''c'' @ ''.'') = CHR ''.''"
    by simp
  have h4: "length ''a.txt'' \<le> 40"
    by simp
  note T = truncate_filename_limit_40
  from T h1 have c1: "length (truncate_filename (replicate 46 CHR ''a'' @ ''.'' @ ''pdf'') 40) \<le> 40 \<and>
      (\<exists>prefix. truncate_filename (replicate 46 CHR ''a'' @ ''.'' @ ''pdf'') 40 = prefix @ ''.'' @ ''pdf'')"
    by blast
  from T h2 have c2: "truncate_filename (replicate 41 CHR ''b'') 40 = take 37 (replicate 41 CHR ''b'') @ ''...''"
    by blast
  from T h3 have c3: "truncate_filename (replicate 49 CHR ''c'' @ ''.'') 40 =
      take 36 (replicate 49 CHR ''c'' @ ''.'') @ ''...''"
    by blast
  from T h4 have c4: "truncate_filename ''a.txt'' 40 = ''a.txt''"
    by blast
  show ?thesis
    using h1 h2 h3 h4 c1 c2 c3 c4 by simp
qed

text \<open>
  Claim C8 as stated fails: the name of 49 letters and a final dot has no extension and
  is longer than 40 characters, and it is shortened to 36 letters and \<^verbatim>\<open>...\<close>, 39
  characters, not to its first 37 characters and \<^verbatim>\<open>...\<close>.
\<close>

theorem truncate_filename_trailing_dot_counterexample:
  "py_suffix (replicate 49 CHR ''a'' @ ''.'') = [] \<and>
   40 < length (replicate 49 CHR ''a'' @ ''.'') \<and>
   truncate_filename (replicate 49 CHR ''a'' @ ''.'') 40 = replicate 36 CHR ''a'' @ ''...'' \<and>
   truncate_filename (replicate 49 CHR ''a'' @ ''.'') 40 \<noteq>
     take 37 (replicate 49 CHR ''a'' @ ''.'') @ ''...'' \<and>
   length (truncate_filename (replicate 49 CHR ''a'' @ ''.'') 40) = 39"
proof -
  have t: "truncate_filename (replicate 49 CHR ''a'' @ ''.'') 40 =
      take 36 (replicate 49 CHR ''a'' @ ''.'') @ ''...''"
    by (rule truncate_filename_trailing_dot) simp_all
  have s: "py_suffix (replicate 49 CHR ''a'' @ CHR ''.'' # []) = []"
    using py_suffix_split[of "[]" "replicate 49 CHR ''a''"] by simp
  show ?thesis
    using t s by simp
qed

subsection \<open>Sorting and the example inputs\<close>

lemma py_sorted_reverse_stable_descending:
  "stable_descending key xs (py_sorted_reverse key xs)"
proof -
  have "sorted (map key (sort_key key (rev xs)))"
    by simp
  then have "sorted_wrt (\<lambda>a b. key a \<le> key b) (sort_key key (rev xs))"
    by (simp add: sorted_map)
  then have "sorted_wrt (\<lambda>a b. key b \<le> key a) (rev (sort_key key (rev xs)))"
    by (simp add: sorted_wrt_rev)
  moreover have "filter (\<lambda>y. key y = k) (rev (sort_key key (rev xs))) = filter (\<lambda>y. key y = k) xs" for k
    by (simp add: rev_filter[symmetric] sort_key_stable)
  ultimately show ?thesis
    by (simp add: stable_descending_def py_sorted_reverse_def)
qed

lemma analyze_files_largest:
  assumes "analyze_files now fts fs sd = Inr a"
  shows "largest_files a = take 15 (py_sorted_reverse size_bytes fs)"
  using assms
  by (auto simp: analyze_files_def py_sorted_reverse_def Let_def split: list.splits sum.splits)

lemma analyze_data_largest:
  assumes "analyze_data str_lower rows = Inr b"
  shows "largest_files b = take 10 (py_sorted_reverse size_bytes rows)"
  using assms
  by (auto simp: analyze_data_def Let_def split: sum.splits)

lemma py_truediv_exact:
  assumes "0 \<le> q" "q < 2 ^ 53" "b \<noteq> 0" "a = q * b"
  shows "py_truediv a b = Inr (of_int q)"
  using assms py_float_of_int_exact[of q] by (simp add: py_truediv_def)

lemma format_file_size_float_small:
  "v \<noteq> 0 \<Longrightarrow> format_file_size (PFloat v) =
     Inr (format_1f (v / 1024 ^ spec_unit_index v) @ '' '' @ size_names ! spec_unit_index v)"
  by (simp add: format_file_size_def size_loop.simps spec_unit_index_def size_names_def)

lemma ex_fmt_4096: "format_file_size (PInt 4096) = Inr ''4.0 KB''"
  using format_file_size_int[of 4096 4096] py_float_of_int_exact[of 4096] by (simp add: eval_1f)

lemma ex_fmt_1024: "format_file_size (PFloat 1024) = Inr ''1.0 KB''"
  by (simp add: format_file_size_float_small eval_1f)

lemma ex_div: "py_truediv 4096 4 = Inr 1024"
  using py_truediv_exact[of 1024 4 4096] by simp

lemma ex_sda: "seven_days_ago 700000 = 95200"
  using round_binary64_of_int_exact[of 95200] by (simp add: seven_days_ago_def)

lemmas ex_defs = example_files_def old_small_def recent_big_def future_big_def recent_small_def
  example_file_def

lemma ex_dates:
  "format_date utc_january_1970 100 = Inr ''1970-01-01 00:01''"
  "format_date utc_january_1970 800000 = Inr ''1970-01-10 06:13''"
  by (simp_all add: format_date_def utc_january_1970_def strftime_minutes_def pad4_def pad2_def
      string_of_nat.simps digit_char_def Let_def)

lemma ex_analysis:
  "analyze_files 700000 utc_january_1970 example_files [] =
     Inr \<lparr>total_files = 4, total_size = 4096, total_size_formatted = Some ''4.0 KB'',
          largest_files = [recent_big, future_big, old_small, recent_small],
          average_size = PFloat 1024, average_size_formatted = Some ''1.0 KB'',
          oldest_date = Some ''1970-01-01 00:01'', newest_date = Some ''1970-01-10 06:13'',
          recent_files = [future_big, recent_small, recent_big],
          oldest_files = [old_small, recent_big, recent_small, future_big],
          subfolders = []\<rparr>"
  by (simp add: analyze_files_def ex_defs ex_fmt_4096 ex_fmt_1024 ex_div ex_sda ex_dates
      py_sorted_reverse_def py_sorted_def Let_def)


lemma stable_descending_unique:
  assumes "stable_descending key xs ys"
  shows "ys = py_sorted_reverse key xs"
proof -
  have m: "mset (rev ys) = mset (rev xs)"
    using assms by (simp add: stable_descending_def)
  have s: "sorted (map key (rev ys))"
    using assms by (simp add: stable_descending_def sorted_map sorted_wrt_rev)
  have f: "filter (\<lambda>x. key k = key x) (rev ys) = filter (\<lambda>x. key k = key x) (rev xs)" for k
  proof -
    have "filter (\<lambda>y. key y = key k) ys = filter (\<lambda>y. key y = key k) xs"
      using assms by (simp add: stable_descending_def)
    then have "rev (filter (\<lambda>y. key y = key k) ys) = rev (filter (\<lambda>y. key y = key k) xs)"
      by simp
    then show ?thesis
      by (simp add: rev_filter eq_commute)
  qed
  have "sort_key key (rev xs) = rev ys"
    by (rule properties_for_sort_key[OF m _ s]) (rule f)
  then show ?thesis
    by (simp add: py_sorted_reverse_def)
qed

lemma ex_fmt_small:
  "format_file_size (PInt 512) = Inr ''512.0 B''"
  "format_file_size (PInt 3072) = Inr ''3.0 KB''"
  "format_file_size (PInt 3584) = Inr ''3.5 KB''"
  using format_file_size_int[of 512 512] py_float_of_int_exact[of 512]
    format_file_size_int[of 3072 3072] py_float_of_int_exact[of 3072]
    format_file_size_int[of 3584 3584] py_float_of_int_exact[of 3584]
  by (simp_all add: eval_1f)

lemma ex_fmt_more:
  "format_file_size (PInt 1536) = Inr ''1.5 KB''"
  "format_file_size (PInt 2048) = Inr ''2.0 KB''"
  using format_file_size_int[of 1536 1536] py_float_of_int_exact[of 1536]
    format_file_size_int[of 2048 2048] py_float_of_int_exact[of 2048]
  by (simp_all add: eval_1f)

lemmas ex_row_defs = example_rows_def example_row_def

lemma ex_summary:
  "analyze_data ascii_lower example_rows =
     Inr \<lparr>total_files = 3, total_size = 3584, total_size_formatted = Some ''3.5 KB'',
          largest_files = [example_rows ! 1, example_rows ! 2, example_rows ! 0],
          file_types =
            [\<lparr>group_key = ''.iso'', group_count = 2, group_total_size = 3072,
              group_total_size_formatted = ''3.0 KB''\<rparr>,
             \<lparr>group_key = ''.txt'', group_count = 1, group_total_size = 512,
              group_total_size_formatted = ''512.0 B''\<rparr>],
          files_by_year =
            [\<lparr>group_key = 1971, group_count = 1, group_total_size = 1536,
              group_total_size_formatted = ''1.5 KB''\<rparr>,
             \<lparr>group_key = 1970, group_count = 2, group_total_size = 2048,
              group_total_size_formatted = ''2.0 KB''\<rparr>]\<rparr>"
  by (simp add: analyze_data_def ex_row_defs ext_label_def ascii_lower_def ascii_lower_char_def
      make_group_def counter_get_def py_sorted_reverse_def Let_def ex_fmt_small ex_fmt_more)

subsection \<open>The largest files\<close>

text \<open>
  Claim C6. For every input record collection, \<open>largest_files\<close> is the first 15 (weekly
  review, \<^verbatim>\<open>analyze_files\<close>) or the first 10 (summary report, \<^verbatim>\<open>analyze_data\<close>)
  of the records ordered by descending \<open>size_bytes\<close>, records of equal size in their input
  order; that ordering of the records is unique.
\<close>

theorem largest_files_top_n:
  "(analyze_files now fts fs sd = Inr a \<longrightarrow>
      (\<exists>ys. stable_descending size_bytes fs ys \<and> largest_files a = take 15 ys \<and>
         (\<forall>zs. stable_descending size_bytes fs zs \<longrightarrow> zs = ys))) \<and>
   (analyze_data str_lower rows = Inr b \<longrightarrow>
      (\<exists>ys. stable_descending size_bytes rows ys \<and> largest_files b = take 10 ys \<and>
         (\<forall>zs. stable_descending size_bytes rows zs \<longrightarrow> zs = ys)))"
proof (intro conjI impI)
  assume "analyze_files now fts fs sd = Inr a"
  then have "largest_files a = take 15 (py_sorted_reverse size_bytes fs)"
    by (rule analyze_files_largest)
  then show "\<exists>ys. stable_descending size_bytes fs ys \<and> largest_files a = take 15 ys \<and>
         (\<forall>zs. stable_descending size_bytes fs zs \<longrightarrow> zs = ys)"
    using py_sorted_reverse_stable_descending[of size_bytes fs] stable_descending_unique
    by blast
next
  assume "analyze_data str_lower rows = Inr b"
  then have "largest_files b = take 10 (py_sorted_reverse size_bytes rows)"
    by (rule analyze_data_largest)
  then show "\<exists>ys. stable_descending size_bytes rows ys \<and> largest_files b = take 10 ys \<and>
         (\<forall>zs. stable_descending size_bytes rows zs \<longrightarrow> zs = ys)"
    using py_sorted_reverse_stable_descending[of size_bytes rows] stable_descending_unique
    by blast
qed

theorem largest_files_top_n_witness:
  "(\<exists>a. analyze_files 700000 utc_january_1970 example_files [] = Inr a \<and>
      largest_files a = [recent_big, future_big, old_small, recent_small] \<and>
      (\<exists>ys. stable_descending size_bytes example_files ys \<and> largest_files a = take 15 ys)) \<and>
   (\<exists>b. analyze_data ascii_lower example_rows = Inr b \<and>
      largest_files b = [example_rows ! 1, example_rows ! 2, example_rows ! 0] \<and>
      (\<exists>ys. stable_descending size_bytes example_rows ys \<and> largest_files b = take 10 ys))"
proof -
  note T = largest_files_top_n[of 700000 utc_january_1970 example_files "[]" _ ascii_lower
      example_rows]
  have 1: "\<exists>ys. stable_descending size_bytes example_files ys \<and> largest_files a = take 15 ys"
    if "analyze_files 700000 utc_january_1970 example_files [] = Inr a" for a
    using T that by blast
  have 2: "\<exists>ys. stable_descending size_bytes example_rows ys \<and> largest_files b = take 10 ys"
    if "analyze_data ascii_lower example_rows = Inr b" for b
    using T that by blast
  show ?thesis
    using 1[OF ex_analysis] 2[OF ex_summary] ex_analysis ex_summary by simp
qed

subsection \<open>The files of the last seven days\<close>

lemma analyze_files_recent:
  assumes "analyze_files now fts fs sd = Inr a"
  shows "recent_files a =
           py_sorted_reverse modified_time (filter (\<lambda>f. seven_days_ago now \<le> modified_time f) fs)"
  using assms
  by (auto simp: analyze_files_def py_sorted_reverse_def Let_def split: list.splits sum.splits)

lemma seven_days_ago_int:
  assumes "604800 \<le> n" "n < 2 ^ 53"
  shows "seven_days_ago (of_int n) = of_int n - 604800"
proof -
  have "round_binary64 (of_int (n - 604800)) = of_int (n - 604800)"
    using assms by (intro round_binary64_of_int_exact) simp_all
  then show ?thesis
    by (simp add: seven_days_ago_def)
qed

text \<open>
  Claim C7, as amended. The claim bounds the window above by the aggregation time: the
  code has the lower bound only. \<open>recent_files\<close> holds exactly the records whose
  \<open>modified_time\<close> is at least the cutoff \<open>seven_days_ago now\<close>, the float difference of
  \<open>now\<close> and 604800 seconds (exactly \<open>now - 604800\<close> for a whole number of seconds
  \<open>now\<close> from 604800 up to \<open>2^53\<close>), records dated after \<open>now\<close> included, ordered by
  descending \<open>modified_time\<close>, records of equal time in input order.
\<close>

theorem recent_files_trailing_window:
  "(analyze_files now fts fs sd = Inr a \<longrightarrow>
      set (recent_files a) = {f \<in> set fs. seven_days_ago now \<le> modified_time f} \<and>
      stable_descending modified_time
        (filter (\<lambda>f. seven_days_ago now \<le> modified_time f) fs) (recent_files a)) \<and>
   (604800 \<le> n \<and> n < 2 ^ 53 \<longrightarrow> seven_days_ago (of_int n) = of_int n - 604800)"
proof (intro conjI impI)
  assume "analyze_files now fts fs sd = Inr a"
  then have r: "recent_files a =
      py_sorted_reverse modified_time (filter (\<lambda>f. seven_days_ago now \<le> modified_time f) fs)"
    by (rule analyze_files_recent)
  show sd: "stable_descending modified_time
        (filter (\<lambda>f. seven_days_ago now \<le> modified_time f) fs) (recent_files a)"
    unfolding r by (rule py_sorted_reverse_stable_descending)
  then have "mset (recent_files a) = mset (filter (\<lambda>f. seven_days_ago now \<le> modified_time f) fs)"
    by (simp add: stable_descending_def)
  then have "set (recent_files a) = set (filter (\<lambda>f. seven_days_ago now \<le> modified_time f) fs)"
    by (rule mset_eq_setD)
  then show "set (recent_files a) = {f \<in> set fs. seven_days_ago now \<le> modified_time f}"
    by simp
next
  assume "604800 \<le> n \<and> n < 2 ^ 53"
  then show "seven_days_ago (of_int n) = of_int n - 604800"
    using seven_days_ago_int by blast
qed

theorem recent_files_trailing_window_witness:
  "(\<exists>a. analyze_files 700000 utc_january_1970 example_files [] = Inr a \<and>
      recent_files a = [future_big, recent_small, recent_big] \<and>
      set (recent_files a) = {f \<in> set example_files. seven_days_ago 700000 \<le> modified_time f}) \<and>
   (604800::int) \<le> 700000 \<and> (700000::int) < 2 ^ 53 \<and> seven_days_ago 700000 = 700000 - 604800"
proof -
  note T = recent_files_trailing_window[of 700000 utc_january_1970 example_files "[]" _ 700000]
  have 1: "set (recent_files a) = {f \<in> set example_files. seven_days_ago 700000 \<le> modified_time f}"
    if "analyze_files 700000 utc_january_1970 example_files [] = Inr a" for a
    using T that by blast
  have 2: "seven_days_ago 700000 = 700000 - 604800"
    using T by simp
  show ?thesis
    using 1[OF ex_analysis] 2 ex_analysis by simp
qed

text \<open>
  Claim C7 as stated fails: at the aggregation time 700000 the record \<open>future_big\<close>,
  modified at 800000, after the end of the window, is among the recent files.
\<close>

theorem recent_files_future_counterexample:
  "map_sum id recent_files (analyze_files 700000 utc_january_1970 example_files []) =
     Inr [future_big, recent_small, recent_big] \<and>
   future_big \<in> set example_files \<and> (700000::rat) < modified_time future_big"
  by (simp add: ex_analysis) (simp add: ex_defs)

subsection \<open>What the aggregation depends on\<close>




lemma analyze_files_cutoff:
  "seven_days_ago now = seven_days_ago now' \<Longrightarrow>
   analyze_files now fts fs sd = analyze_files now' fts fs sd"
  by (simp add: analyze_files_def Let_def split: list.splits sum.splits)










subsection \<open>The empty collection\<close>

text \<open>
  Claim C3. For the empty record collection \<^verbatim>\<open>analyze_files\<close> returns a result with
  \<open>total_files\<close>, \<open>total_size\<close> and \<open>average_size\<close> 0 and the lists \<open>largest_files\<close>,
  \<open>recent_files\<close>, \<open>oldest_files\<close> and \<open>subfolders\<close> empty, and \<^verbatim>\<open>analyze_data\<close> one
  with \<open>total_files\<close> and \<open>total_size\<close> 0 and \<open>largest_files\<close>, \<open>file_types\<close> and
  \<open>files_by_year\<close> empty. Neither the aggregation nor the rendering of these results
  raises \<^verbatim>\<open>ZeroDivisionError\<close>: the summary report is rendered in full, and the
  weekly review prints its first six lines and then stops with a \<^verbatim>\<open>KeyError\<close>, since
  the empty result has no key \<^verbatim>\<open>total_size_formatted\<close>.
\<close>

theorem empty_collection_aggregation:
  "analyze_files now fts [] sd =
     Inr \<lparr>total_files = 0, total_size = 0, total_size_formatted = None, largest_files = [],
          average_size = PInt 0, average_size_formatted = None,
          oldest_date = None, newest_date = None,
          recent_files = [], oldest_files = [], subfolders = []\<rparr> \<and>
   analyze_data str_lower [] =
     Inr \<lparr>total_files = 0, total_size = 0, total_size_formatted = Some ''0 B'',
          largest_files = [], file_types = [], files_by_year = []\<rparr> \<and>
   map_sum id (generate_markdown_report downloads_path) (analyze_files now fts [] sd) =
     Inr ([''# Downloads Weekly Review'', '''', ''## Summary'', '''',
           ''- **Total files:** 0'', ''- **Date range:** None to None''],
          Some (KeyError ''total_size_formatted'')) \<and>
   map_sum id (\<lambda>a. snd (generate_markdown_report downloads_path a))
       (analyze_files now fts [] sd) \<noteq> Inr (Some ZeroDivisionError) \<and>
   analyze_files now fts [] sd \<noteq> Inl ZeroDivisionError \<and>
   analyze_data str_lower [] \<noteq> Inl ZeroDivisionError \<and>
   (case analyze_data str_lower [] of Inl e \<Rightarrow> Inl e | Inr b \<Rightarrow> generate_summary_report timestamp b) =
     Inr [''# File Census Summary Report'', '''', ''Generated on: '' @ timestamp, '''',
          ''## Overview'', '''', ''- **Total Files**: 0'',
          ''- **Total Size**: 0 B (0 bytes)'', '''',
          ''## Top 10 Largest Files'', '''',
          ''| Rank | Filename | Size | Modified Date |'',
          ''|------|----------|------|---------------|'',
          '''', ''## File Type Breakdown'', '''',
          ''| Extension | Count | Total Size | Percentage |'',
          ''|-----------|-------|------------|------------|'',
          '''', ''## Files by Year'', '''',
          ''| Year | Count | Total Size | Percentage |'',
          ''|------|-------|------------|------------|'',
          '''', ''## File Extensions Summary'', '''', '''',
          '''', ''---'', '''', ''*Report generated by File Census Tool*'']"
proof -
  have a: "analyze_files now fts [] sd =
     Inr \<lparr>total_files = 0, total_size = 0, total_size_formatted = None, largest_files = [],
          average_size = PInt 0, average_size_formatted = None,
          oldest_date = None, newest_date = None,
          recent_files = [], oldest_files = [], subfolders = []\<rparr>"
    by (simp add: analyze_files_def)
  have b: "analyze_data str_lower [] =
     Inr \<lparr>total_files = 0, total_size = 0, total_size_formatted = Some ''0 B'',
          largest_files = [], file_types = [], files_by_year = []\<rparr>"
    by (simp add: analyze_data_def format_file_size_def py_sorted_reverse_def)
  have z: "format_commas 0 = ''0''"
    by (simp add: format_commas_def group_thousands.simps string_of_nat.simps digit_char_def)
  show ?thesis
    unfolding a b
    by (simp add: generate_markdown_report_def generate_summary_report_def str_or_None_def z)
qed

subsection \<open>The file census on a root that is not a directory\<close>

lemma header_text:
  "csv_text_of [] =
     ''filename,full_path,size_bytes,size_formatted,modified_date,extension'' @ [CR, LF]"
  by (simp add: csv_text_of_def csv_writerow_def fieldnames_def quote_field_def needs_quoting_def
      dquote_def CR_def LF_def)

text \<open>
  Claim C10. In the census pipeline the output file is created and its header row is
  written before the checks of the scan root run, since \<^verbatim>\<open>scan_folder\<close> is a generator
  whose checks run only when it is first iterated: for every root path that does not
  exist or is not a directory (the output file could be opened), the generator yields
  nothing, the process exits with status 1 and it leaves behind a closed output file that
  holds exactly the header row. The generator raises \<^verbatim>\<open>FileNotFoundError\<close> for a path
  that does not exist and \<^verbatim>\<open>NotADirectoryError\<close> for one that is not a directory; for
  a root whose status may not be read, \<^verbatim>\<open>exists()\<close> raises \<^verbatim>\<open>PermissionError\<close>,
  with the same outcome.
\<close>

theorem bad_root_leaves_header_only:
  "((\<forall>n c readable es. scan_root \<noteq> Some (Dir n c readable es)) \<longrightarrow>
      census_main str_lower fts root_path scan_root None show_progress sigint =
        \<lparr>csv_text =
           Some (''filename,full_path,size_bytes,size_formatted,modified_date,extension'' @ [CR, LF]),
         csv_closed = True, exit_status = 1\<rparr> \<and>
      fst (scan_folder str_lower fts root_path scan_root show_progress sigint) = []) \<and>
   snd (scan_folder str_lower fts root_path None show_progress sigint) = Raised FileNotFoundError \<and>
   snd (scan_folder str_lower fts root_path (Some (File n st)) show_progress sigint) =
     Raised NotADirectoryError \<and>
   snd (scan_folder str_lower fts root_path (Some (Other n)) show_progress sigint) =
     Raised NotADirectoryError \<and>
   snd (scan_folder str_lower fts root_path (Some (Denied n)) show_progress sigint) =
     Raised PermissionError"
proof (intro conjI impI)
  assume a: "\<forall>n c readable es. scan_root \<noteq> Some (Dir n c readable es)"
  show "census_main str_lower fts root_path scan_root None show_progress sigint =
        \<lparr>csv_text =
           Some (''filename,full_path,size_bytes,size_formatted,modified_date,extension'' @ [CR, LF]),
         csv_closed = True, exit_status = 1\<rparr>"
  proof (cases scan_root)
    case None
    then show ?thesis
      using header_text by (simp add: census_main_def create_csv_report_def)
  next
    case (Some node)
    show ?thesis
    proof (cases node)
      case (Dir n c readable es)
      with a Some show ?thesis by blast
    qed (simp_all add: Some header_text census_main_def create_csv_report_def)
  qed
  show "fst (scan_folder str_lower fts root_path scan_root show_progress sigint) = []"
  proof (cases scan_root)
    case None
    then show ?thesis by simp
  next
    case (Some node)
    show ?thesis
    proof (cases node)
      case (Dir n c readable es)
      with a Some show ?thesis by blast
    qed (simp_all add: Some)
  qed
qed simp_all

theorem bad_root_leaves_header_only_witness:
  "census_main ascii_lower utc_january_1970 ''/nowhere'' None None True NoInterrupt =
       \<lparr>csv_text =
          Some (''filename,full_path,size_bytes,size_formatted,modified_date,extension'' @ [CR, LF]),
        csv_closed = True, exit_status = 1\<rparr> \<and>
   census_main ascii_lower utc_january_1970 ''/dl/a.txt''
       (Some (File ''a.txt'' (Some (2048, 100000)))) None False NoInterrupt =
       \<lparr>csv_text =
          Some (''filename,full_path,size_bytes,size_formatted,modified_date,extension'' @ [CR, LF]),
        csv_closed = True, exit_status = 1\<rparr>"
proof -
  have 1: "\<forall>n c readable es. (None :: fs_node option) \<noteq> Some (Dir n c readable es)"
    by simp
  have 2: "\<forall>n c readable es.
      Some (File ''a.txt'' (Some (2048, 100000))) \<noteq> Some (Dir n c readable es)"
    by simp
  show ?thesis
    using bad_root_leaves_header_only[where scan_root = None and str_lower = ascii_lower
        and fts = utc_january_1970 and root_path = "''/nowhere''" and show_progress = True
        and sigint = NoInterrupt]
      bad_root_leaves_header_only[where scan_root = "Some (File ''a.txt'' (Some (2048, 100000)))"
        and str_lower = ascii_lower and fts = utc_january_1970 and root_path = "''/dl/a.txt''"
        and show_progress = False and sigint = NoInterrupt] 1 2
    by blast
qed

subsection \<open>Interrupts of the file census\<close>

lemma census_scan_interrupt:
  assumes "k < length xs" "census_scan lw fts p NoInterrupt i (take k xs) = (rows, Completed)"
  shows "census_scan lw fts p (InScan (i + k)) i xs = (rows, InterruptCaught)"
  using assms
proof (induction xs arbitrary: i k rows)
  case Nil
  then show ?case by simp
next
  case (Cons x xs)
  obtain rel node where x: "x = (rel, node)" by (cases x)
  show ?case
  proof (cases k)
    case 0
    then show ?thesis using Cons.prems x by simp
  next
    case (Suc j)
    have j: "j < length xs" using Cons.prems(1) Suc by simp
    have ij: "Suc i + j = i + k" using Suc by simp
    show ?thesis
      using Cons.prems(2) Cons.IH[OF j, of "Suc i"] x Suc ij
      by (auto split: sum.splits bool.splits if_splits prod.splits)
  qed
qed

lemma interrupt_in_scan_returns:
  assumes "k < length (rglob [] (Dir n c readable es))"
    and "census_scan lw fts p NoInterrupt 0 (take k (rglob [] (Dir n c readable es))) =
      (rows, Completed)"
  shows "census_main lw fts p (Some (Dir n c readable es)) None show_progress (InScan k) =
    \<lparr>csv_text = Some (csv_text_of rows), csv_closed = True, exit_status = 0\<rparr>"
  using census_scan_interrupt[OF assms]
  by (simp add: census_main_def create_csv_report_def del: rglob.simps)

lemmas ex_census_defs = example_tree_def census_main_def create_csv_report_def census_record_def
  csv_text_of_def csv_writerow_def fieldnames_def census_fields_def quote_field_def
  needs_quoting_def join_path_def py_suffix_def rsplit_dot_def ascii_lower_def
  ascii_lower_char_def utc_january_1970_def strftime_seconds_def strftime_minutes_def pad4_def
  pad2_def string_of_int_def is_oserror_def

lemma ex_tree_entries:
  "rglob [] example_tree =
     [(''a.txt'', File ''a.txt'' (Some (2048, 100000))),
      (''sub'', Dir ''sub'' 60 True [File ''b.TXT'' (Some (512, 200))]),
      (''empty'', Dir ''empty'' 70 True [Dir ''deeper'' 80 True []]),
      (''c.txt'', File ''c.txt'' (Some (1536, 650000))),
      (''sub/b.TXT'', File ''b.TXT'' (Some (512, 200))),
      (''empty/deeper'', Dir ''deeper'' 80 True [])]"
  by (simp add: example_tree_def join_path_def)

text \<open>
  Claim C1, evaluated. On a folder with two files at its top level, a user interrupt
  raised while the second pass of \<^verbatim>\<open>scan_folder\<close> handles the second of them (entry 3
  of the traversal) is caught by the handler of the generator, which returns:
  \<^verbatim>\<open>create_csv_report\<close> ends normally and the process exits with status 0, where the
  claim has a non-zero status. The output file is closed and holds the header row and the
  row of the first file, as the claim says. The same interrupt raised in the loop of
  \<^verbatim>\<open>create_csv_report\<close>, or in the counting pass, reaches the handler of \<^verbatim>\<open>main\<close>
  and the process exits with status 1.
\<close>

theorem interrupt_in_scan_exits_zero:
  "census_main ascii_lower utc_january_1970 ''/dl'' (Some example_tree) None True (InScan 3) =
     \<lparr>csv_text =
        Some (''filename,full_path,size_bytes,size_formatted,modified_date,extension'' @ [CR, LF] @
              ''a.txt,/dl/a.txt,2048,2.0 KB,1970-01-02 03:46:40,.txt'' @ [CR, LF]),
      csv_closed = True, exit_status = 0\<rparr> \<and>
   census_main ascii_lower utc_january_1970 ''/dl'' (Some example_tree) None True (BeforeWrite 3) =
     \<lparr>csv_text =
        Some (''filename,full_path,size_bytes,size_formatted,modified_date,extension'' @ [CR, LF] @
              ''a.txt,/dl/a.txt,2048,2.0 KB,1970-01-02 03:46:40,.txt'' @ [CR, LF]),
      csv_closed = True, exit_status = 1\<rparr> \<and>
   census_main ascii_lower utc_january_1970 ''/dl'' (Some example_tree) None True InCountingPass =
     \<lparr>csv_text =
        Some (''filename,full_path,size_bytes,size_formatted,modified_date,extension'' @ [CR, LF]),
      csv_closed = True, exit_status = 1\<rparr>"
proof -
  have a: "census_record ascii_lower utc_january_1970 ''/dl'' ''a.txt''
      (File ''a.txt'' (Some (2048, 100000))) =
      Inr \<lparr>size_bytes = 2048, size_formatted = ''2.0 KB'', filename = ''a.txt'',
           full_path = ''/dl/a.txt'', modified_date = ''1970-01-02 03:46:40'',
           extension = ''.txt''\<rparr>"
    by (simp add: ex_census_defs ex_fmt_more string_of_nat.simps digit_char_def Let_def)
  have c: "census_record ascii_lower utc_january_1970 ''/dl'' ''c.txt''
      (File ''c.txt'' (Some (1536, 650000))) =
      Inr \<lparr>size_bytes = 1536, size_formatted = ''1.5 KB'', filename = ''c.txt'',
           full_path = ''/dl/c.txt'', modified_date = ''1970-01-08 12:33:20'',
           extension = ''.txt''\<rparr>"
    by (simp add: ex_census_defs ex_fmt_more string_of_nat.simps digit_char_def Let_def)
  have row: "csv_text_of
      [\<lparr>size_bytes = 2048, size_formatted = ''2.0 KB'', filename = ''a.txt'',
        full_path = ''/dl/a.txt'', modified_date = ''1970-01-02 03:46:40'',
        extension = ''.txt''\<rparr>] =
      ''filename,full_path,size_bytes,size_formatted,modified_date,extension'' @ [CR, LF] @
      ''a.txt,/dl/a.txt,2048,2.0 KB,1970-01-02 03:46:40,.txt'' @ [CR, LF]"
    by (simp add: csv_text_of_def csv_writerow_def fieldnames_def census_fields_def
        quote_field_def needs_quoting_def string_of_int_def string_of_nat.simps digit_char_def
        dquote_def CR_def LF_def)
  have s: "scan_folder ascii_lower utc_january_1970 ''/dl'' (Some example_tree) True sigint =
      (if sigint = InCountingPass then ([], Raised KeyboardInterrupt)
       else census_scan ascii_lower utc_january_1970 ''/dl'' sigint 0 (rglob [] example_tree))"
    for sigint
    unfolding example_tree_def by (simp del: rglob.simps)
  show ?thesis
    by (simp add: census_main_def create_csv_report_def s ex_tree_entries a c row header_text)
qed

subsection \<open>The round trip through the CSV file\<close>

lemma ex_cr_newlines:
  "universal_newlines example_cr_csv =
     ''filename,full_path,size_bytes,size_formatted,modified_date,extension'' @ [LF] @
     ''a.txt,/dl/a.txt,2048,2.0 KB,1970-01-02 03:46:40,.txt'' @ [LF] @
     [dquote] @ ''b'' @ [LF] @ ''c.txt'' @ [dquote] @ '','' @
     [dquote] @ ''/dl/b'' @ [LF] @ ''c.txt'' @ [dquote] @
     '',512,512.0 B,1970-01-01 00:03:20,.txt'' @ [LF]"
  by (simp add: example_cr_csv_def CR_def LF_def dquote_def)

lemma ex_cr_lines:
  "file_lines []
    (''filename,full_path,size_bytes,size_formatted,modified_date,extension'' @ [LF] @
     ''a.txt,/dl/a.txt,2048,2.0 KB,1970-01-02 03:46:40,.txt'' @ [LF] @
     [dquote] @ ''b'' @ [LF] @ ''c.txt'' @ [dquote] @ '','' @
     [dquote] @ ''/dl/b'' @ [LF] @ ''c.txt'' @ [dquote] @
     '',512,512.0 B,1970-01-01 00:03:20,.txt'' @ [LF]) =
   [''filename,full_path,size_bytes,size_formatted,modified_date,extension'' @ [LF],
    ''a.txt,/dl/a.txt,2048,2.0 KB,1970-01-02 03:46:40,.txt'' @ [LF],
    [dquote] @ ''b'' @ [LF],
    ''c.txt'' @ [dquote] @ '','' @ [dquote] @ ''/dl/b'' @ [LF],
    ''c.txt'' @ [dquote] @ '',512,512.0 B,1970-01-01 00:03:20,.txt'' @ [LF]]"
  by (simp add: CR_def LF_def dquote_def)

lemmas ex_parse_defs = start_field_def parse_add_char_def parse_save_field_def field_limit_def
  CR_def LF_def dquote_def

lemma ex_cr_reader:
  "csv_reader (START_RECORD, [], [])
   [''filename,full_path,size_bytes,size_formatted,modified_date,extension'' @ [LF],
    ''a.txt,/dl/a.txt,2048,2.0 KB,1970-01-02 03:46:40,.txt'' @ [LF],
    [dquote] @ ''b'' @ [LF],
    ''c.txt'' @ [dquote] @ '','' @ [dquote] @ ''/dl/b'' @ [LF],
    ''c.txt'' @ [dquote] @ '',512,512.0 B,1970-01-01 00:03:20,.txt'' @ [LF]] =
   ([[''filename'', ''full_path'', ''size_bytes'', ''size_formatted'', ''modified_date'', ''extension''],
     [''a.txt'', ''/dl/a.txt'', ''2048'', ''2.0 KB'', ''1970-01-02 03:46:40'', ''.txt''],
     [''b'' @ [LF] @ ''c.txt'', ''/dl/b'' @ [LF] @ ''c.txt'', ''512'', ''512.0 B'',
      ''1970-01-01 00:03:20'', ''.txt'']], None)"
  by (simp add: ex_parse_defs)


lemmas ex_int_defs = py_int_def strip_with_def int_space_def digit_value_def nat_of_digits_def
  Let_def

lemma ex_py_int: "py_int ''2048'' = Inr 2048" "py_int ''512'' = Inr 512"
  by (simp_all add: ex_int_defs)

lemmas ex_strptime_defs = strptime_def matching_def directive_Y_def directive_m_def
  directive_d_def directive_H_def directive_M_def directive_S_def one_of_def any_digit_def
  match_spaces_def match_literal_def matched_number_def regex_space_def make_datetime_def
  days_in_month_def is_leap_def digit_value_def nat_of_digits_def

lemma ex_strptime:
  "strptime ''1970-01-02 03:46:40'' =
     Inr \<lparr>year = 1970, month = 1, day = 2, hour = 3, minute = 46, second = 40\<rparr>"
  "strptime ''1970-01-01 00:03:20'' =
     Inr \<lparr>year = 1970, month = 1, day = 1, hour = 0, minute = 3, second = 20\<rparr>"
  by (simp_all add: ex_strptime_defs)

lemma ex_cr_read:
  "read_csv_data (Some example_cr_csv) =
     Inr [\<lparr>size_bytes = 2048, size_formatted = ''2.0 KB'', filename = ''a.txt'',
           full_path = ''/dl/a.txt'', modified_date = ''1970-01-02 03:46:40'',
           extension = ''.txt'',
           modified_datetime =
             \<lparr>year = 1970, month = 1, day = 2, hour = 3, minute = 46, second = 40\<rparr>\<rparr>,
          \<lparr>size_bytes = 512, size_formatted = ''512.0 B'', filename = ''b'' @ [LF] @ ''c.txt'',
           full_path = ''/dl/b'' @ [LF] @ ''c.txt'', modified_date = ''1970-01-01 00:03:20'',
           extension = ''.txt'',
           modified_datetime =
             \<lparr>year = 1970, month = 1, day = 1, hour = 0, minute = 3, second = 20\<rparr>\<rparr>]"
proof -
  have "csv_reader (START_RECORD, [], []) (file_lines [] (universal_newlines example_cr_csv)) =
   ([[''filename'', ''full_path'', ''size_bytes'', ''size_formatted'', ''modified_date'', ''extension''],
     [''a.txt'', ''/dl/a.txt'', ''2048'', ''2.0 KB'', ''1970-01-02 03:46:40'', ''.txt''],
     [''b'' @ [LF] @ ''c.txt'', ''/dl/b'' @ [LF] @ ''c.txt'', ''512'', ''512.0 B'',
      ''1970-01-01 00:03:20'', ''.txt'']], None)"
    by (simp only: ex_cr_newlines ex_cr_lines ex_cr_reader)
  then show ?thesis
    by (simp add: read_csv_data_def read_rows_def dict_reader_def convert_row_def and_then_def
        get_string_def dict_get_def ex_py_int ex_strptime)
qed

lemma ex_cr_entries:
  "rglob [] example_cr_tree =
     [(''a.txt'', File ''a.txt'' (Some (2048, 100000))),
      (''b'' @ [CR] @ ''c.txt'', File (''b'' @ [CR] @ ''c.txt'') (Some (512, 200)))]"
  by (simp add: example_cr_tree_def join_path_def rglob.simps)

lemma ex_cr_scan:
  "scan_folder ascii_lower utc_january_1970 ''/dl'' (Some example_cr_tree) True NoInterrupt =
     ([\<lparr>size_bytes = 2048, size_formatted = ''2.0 KB'', filename = ''a.txt'',
        full_path = ''/dl/a.txt'', modified_date = ''1970-01-02 03:46:40'',
        extension = ''.txt''\<rparr>,
       \<lparr>size_bytes = 512, size_formatted = ''512.0 B'', filename = ''b'' @ [CR] @ ''c.txt'',
        full_path = ''/dl/b'' @ [CR] @ ''c.txt'', modified_date = ''1970-01-01 00:03:20'',
        extension = ''.txt''\<rparr>], Completed)"
proof -
  have a: "census_record ascii_lower utc_january_1970 ''/dl'' ''a.txt''
      (File ''a.txt'' (Some (2048, 100000))) =
      Inr \<lparr>size_bytes = 2048, size_formatted = ''2.0 KB'', filename = ''a.txt'',
           full_path = ''/dl/a.txt'', modified_date = ''1970-01-02 03:46:40'',
           extension = ''.txt''\<rparr>"
    by (simp add: ex_census_defs ex_fmt_more string_of_nat.simps digit_char_def Let_def)
  have b: "census_record ascii_lower utc_january_1970 ''/dl'' (''b'' @ [CR] @ ''c.txt'')
      (File (''b'' @ [CR] @ ''c.txt'') (Some (512, 200))) =
      Inr \<lparr>size_bytes = 512, size_formatted = ''512.0 B'', filename = ''b'' @ [CR] @ ''c.txt'',
           full_path = ''/dl/b'' @ [CR] @ ''c.txt'', modified_date = ''1970-01-01 00:03:20'',
           extension = ''.txt''\<rparr>"
    by (simp add: ex_census_defs ex_fmt_small string_of_nat.simps digit_char_def Let_def CR_def)
  have s: "scan_folder ascii_lower utc_january_1970 ''/dl'' (Some example_cr_tree) True NoInterrupt =
      census_scan ascii_lower utc_january_1970 ''/dl'' NoInterrupt 0 (rglob [] example_cr_tree)"
    unfolding example_cr_tree_def by (simp del: rglob.simps)
  show ?thesis
    unfolding s ex_cr_entries using a b by simp
qed

lemma ex_cr_text:
  "csv_text_of
     [\<lparr>size_bytes = 2048, size_formatted = ''2.0 KB'', filename = ''a.txt'',
        full_path = ''/dl/a.txt'', modified_date = ''1970-01-02 03:46:40'',
        extension = ''.txt''\<rparr>,
       \<lparr>size_bytes = 512, size_formatted = ''512.0 B'', filename = ''b'' @ [CR] @ ''c.txt'',
        full_path = ''/dl/b'' @ [CR] @ ''c.txt'', modified_date = ''1970-01-01 00:03:20'',
        extension = ''.txt''\<rparr>] = example_cr_csv"
  by (simp add: csv_text_of_def csv_writerow_def fieldnames_def census_fields_def
      quote_field_def needs_quoting_def string_of_int_def string_of_nat.simps digit_char_def
      example_cr_csv_def dquote_def CR_def LF_def)

text \<open>
  Claim C5, evaluated. The folder holds \<^verbatim>\<open>a.txt\<close> and a file whose name is \<^verbatim>\<open>b\<close>, a
  carriage return, \<^verbatim>\<open>c.txt\<close>. The file census ends with status 0 and writes the text
  \<open>example_cr_csv\<close>, with this name between quotes. \<^verbatim>\<open>read_csv_data\<close> opens the file
  without \<^verbatim>\<open>newline=''\<close>, so the carriage return inside the quoted field reaches the
  \<^verbatim>\<open>csv\<close> reader as a line feed: the record read back has the name \<^verbatim>\<open>b\<close>, line feed,
  \<^verbatim>\<open>c.txt\<close>, not the name that was written (and so for its path). The record of
  \<^verbatim>\<open>a.txt\<close> is read back with the name, the size and the extension written, and the
  dates of both records are parsed back to the date-time they were formatted from.
\<close>

theorem csv_round_trip_carriage_return:
  "census_main ascii_lower utc_january_1970 ''/dl'' (Some example_cr_tree) None True NoInterrupt =
     \<lparr>csv_text = Some example_cr_csv, csv_closed = True, exit_status = 0\<rparr> \<and>
   scan_folder ascii_lower utc_january_1970 ''/dl'' (Some example_cr_tree) True NoInterrupt =
     ([\<lparr>size_bytes = 2048, size_formatted = ''2.0 KB'', filename = ''a.txt'',
        full_path = ''/dl/a.txt'', modified_date = ''1970-01-02 03:46:40'',
        extension = ''.txt''\<rparr>,
       \<lparr>size_bytes = 512, size_formatted = ''512.0 B'', filename = ''b'' @ [CR] @ ''c.txt'',
        full_path = ''/dl/b'' @ [CR] @ ''c.txt'', modified_date = ''1970-01-01 00:03:20'',
        extension = ''.txt''\<rparr>], Completed) \<and>
   read_csv_data (Some example_cr_csv) =
     Inr [\<lparr>size_bytes = 2048, size_formatted = ''2.0 KB'', filename = ''a.txt'',
           full_path = ''/dl/a.txt'', modified_date = ''1970-01-02 03:46:40'',
           extension = ''.txt'',
           modified_datetime =
             \<lparr>year = 1970, month = 1, day = 2, hour = 3, minute = 46, second = 40\<rparr>\<rparr>,
          \<lparr>size_bytes = 512, size_formatted = ''512.0 B'', filename = ''b'' @ [LF] @ ''c.txt'',
           full_path = ''/dl/b'' @ [LF] @ ''c.txt'', modified_date = ''1970-01-01 00:03:20'',
           extension = ''.txt'',
           modified_datetime =
             \<lparr>year = 1970, month = 1, day = 1, hour = 0, minute = 3, second = 20\<rparr>\<rparr>] \<and>
   ''b'' @ [CR] @ ''c.txt'' \<noteq> ''b'' @ [LF] @ ''c.txt'' \<and>
   utc_january_1970 100000 =
     Inr \<lparr>year = 1970, month = 1, day = 2, hour = 3, minute = 46, second = 40\<rparr> \<and>
   utc_january_1970 200 =
     Inr \<lparr>year = 1970, month = 1, day = 1, hour = 0, minute = 3, second = 20\<rparr>"
proof -
  have m: "census_main ascii_lower utc_january_1970 ''/dl'' (Some example_cr_tree) None True
      NoInterrupt = \<lparr>csv_text = Some example_cr_csv, csv_closed = True, exit_status = 0\<rparr>"
    using ex_cr_scan ex_cr_text by (simp add: census_main_def create_csv_report_def)
  have n: "''b'' @ [CR] @ ''c.txt'' \<noteq> ''b'' @ [LF] @ ''c.txt''"
    by (simp add: CR_def LF_def)
  have u: "utc_january_1970 100000 =
      Inr \<lparr>year = 1970, month = 1, day = 2, hour = 3, minute = 46, second = 40\<rparr>"
    "utc_january_1970 200 =
      Inr \<lparr>year = 1970, month = 1, day = 1, hour = 0, minute = 3, second = 20\<rparr>"
    by (simp_all add: utc_january_1970_def)
  show ?thesis
    using m n u ex_cr_scan ex_cr_read by (simp only: simp_thms)
qed

subsection \<open>Traversal of the file system\<close>

lemma py_float_error: "py_float x = Inl e \<Longrightarrow> e = OverflowError"
  by (simp add: py_float_def Let_def split: if_splits)

lemma num_div_1024_error: "num_div_1024 s = Inl e \<Longrightarrow> e = OverflowError"
  by (cases s) (auto split: sum.splits dest: py_float_error)

lemma size_loop_error: "size_loop s i = Inl e \<Longrightarrow> e = OverflowError"
proof (induction s i rule: size_loop.induct)
  case (1 s i)
  then show ?case
    by (subst (asm) (2) size_loop.simps) (auto split: if_splits sum.splits dest: num_div_1024_error)
qed

lemma format_num_1f_error: "format_num_1f s = Inl e \<Longrightarrow> e = OverflowError"
  by (cases s) (auto split: sum.splits dest: py_float_error)

lemma format_file_size_error: "format_file_size s = Inl e \<Longrightarrow> e = OverflowError"
  by (auto simp: format_file_size_def split: if_splits sum.splits prod.splits
      dest: size_loop_error format_num_1f_error)

lemma not_oserror_overflow: "\<not> is_oserror OverflowError"
  by (simp add: is_oserror_def)

lemma scan_files_no_denied:
  "scan_files fts p xs = Inr fs \<Longrightarrow> x \<in> set xs \<Longrightarrow> snd x \<noteq> Denied n"
proof (induction xs arbitrary: fs)
  case Nil
  then show ?case by simp
next
  case (Cons y ys)
  obtain rel node where y: "y = (rel, node)" by (cases y)
  show ?case
    using Cons.prems Cons.IH y
    by (cases node) (auto split: sum.splits bool.splits if_splits)
qed

lemma rglob_nodes: "map snd (rglob r d) = map snd (rglob r' d)"
proof (induction d arbitrary: r r')
  case (Dir n c readable es)
  have "map (\<lambda>e. map snd (rglob (join_path r (node_name e)) e)) es =
        map (\<lambda>e. map snd (rglob (join_path r' (node_name e)) e)) es"
  proof -
    have "map snd (rglob (join_path r (node_name e)) e) =
          map snd (rglob (join_path r' (node_name e)) e)" if "e \<in> set es" for e
      using that by (rule Dir.IH)
    then show ?thesis
      by (simp cong: map_cong)
  qed
  then have "concat (map (\<lambda>e. map snd (rglob (join_path r (node_name e)) e)) es) =
        concat (map (\<lambda>e. map snd (rglob (join_path r' (node_name e)) e)) es)"
    by (rule arg_cong)
  then show ?case
    by (simp add: map_concat comp_def del: map_eq_conv)
qed simp_all


lemma rglob_dir_nodes:
  "snd ` set (rglob r (Dir n c True es)) =
     set es \<union> (\<Union>e\<in>set es. snd ` set (rglob (join_path r (node_name e)) e))"
  by (simp add: image_Un image_UN image_image)

lemma rglob_child_nodes:
  assumes "d \<in> set es"
  shows "d \<in> snd ` set (rglob r (Dir n c True es))"
    and "snd ` set (rglob r' d) \<subseteq> snd ` set (rglob r (Dir n c True es))"
proof -
  show "d \<in> snd ` set (rglob r (Dir n c True es))"
    unfolding rglob_dir_nodes using assms by blast
  have "set (map snd (rglob r' d)) = set (map snd (rglob (join_path r (node_name d)) d))"
    using rglob_nodes[of r' d "join_path r (node_name d)"] by simp
  then have "snd ` set (rglob r' d) = snd ` set (rglob (join_path r (node_name d)) d)"
    by (simp only: set_map)
  then show "snd ` set (rglob r' d) \<subseteq> snd ` set (rglob r (Dir n c True es))"
    unfolding rglob_dir_nodes using assms by blast
qed

lemma count_files_count:
  assumes "\<forall>x\<in>set xs. \<forall>n. snd x \<noteq> Denied n"
  shows "\<exists>sz. count_files xs = Inr (int (length (filter (\<lambda>x. is_readable_file (snd x)) xs)), sz)"
  using assms
proof (induction xs)
  case Nil
  then show ?case by simp
next
  case (Cons y ys)
  obtain rel node where y: "y = (rel, node)" by (cases y)
  obtain sz where sz: "count_files ys = Inr (int (length (filter (\<lambda>x. is_readable_file (snd x)) ys)), sz)"
    using Cons by auto
  show ?case
  proof (cases node)
    case (File n st)
    then show ?thesis using y sz by (cases st) (auto simp: is_oserror_def)
  next
    case (Denied n)
    then show ?thesis using Cons.prems y by auto
  qed (use y sz in auto)
qed

lemma has_readable_file_rglob:
  "has_readable_file d \<longleftrightarrow> (\<exists>x\<in>set (rglob r d). is_readable_file (snd x))"
proof (induction d arbitrary: r)
  case (Dir n c readable es)
  show ?case
  proof (cases readable)
    case False
    then show ?thesis by simp
  next
    case True
    have "(\<exists>e\<in>set es. is_readable_file e \<or> has_readable_file e) \<longleftrightarrow>
          (\<exists>e\<in>set es. is_readable_file e \<or>
             (\<exists>x\<in>set (rglob (join_path r (node_name e)) e). is_readable_file (snd x)))"
      using Dir.IH by blast
    then show ?thesis
      using True by (auto simp: Bex_def)
  qed
qed simp_all

subsection \<open>Folder records\<close>

text \<open>
  From here on the traversal and the two predicates on subdirectories are unfolded only
  where a proof asks for it.
\<close>

declare rglob.simps [simp del] has_readable_file.simps [simp del] ctime_unreadable.simps [simp del]
  subfolder_record.simps [simp del]

lemma subfolder_record_cases:
  assumes nd: "\<forall>x\<in>set (rglob n (Dir n c readable es)). \<forall>m. snd x \<noteq> Denied m"
  shows "(\<exists>e. subfolder_record fts p (Dir n c readable es) = Inl e \<and> \<not> is_oserror e) \<or>
         (if has_readable_file (Dir n c readable es) \<and> \<not> ctime_unreadable fts (Dir n c readable es)
          then \<exists>sf. subfolder_record fts p (Dir n c readable es) = Inr (Some sf) \<and>
                 folder_name sf = n \<and> 0 < file_count sf
          else (\<exists>e. subfolder_record fts p (Dir n c readable es) = Inl e \<and> is_oserror e) \<or>
               subfolder_record fts p (Dir n c readable es) = Inr None)"
proof -
  define d where "d = Dir n c readable es"
  define cnt where "cnt = int (length (filter (\<lambda>x. is_readable_file (snd x)) (rglob n d)))"
  obtain sz where cf: "count_files (rglob n d) = Inr (cnt, sz)"
    using count_files_count[OF nd] unfolding d_def cnt_def by blast
  have pos: "0 < cnt \<longleftrightarrow> has_readable_file d"
    unfolding has_readable_file_rglob[of d n] cnt_def by (auto simp: filter_empty_conv)
  have rec: "subfolder_record fts p d =
      (if 0 < cnt
       then (case format_file_size (PInt sz) of
               Inl e \<Rightarrow> Inl e
             | Inr size_fmt \<Rightarrow>
                 (case format_date fts c of
                    Inl e \<Rightarrow> Inl e
                  | Inr date_fmt \<Rightarrow>
                      Inr (Some \<lparr>folder_name = n, file_count = cnt, folder_total_size = sz,
                                 folder_total_size_formatted = size_fmt,
                                 created_time = c, created_formatted = date_fmt,
                                 folder_path = join_path p n\<rparr>)))
       else Inr None)"
    using cf unfolding d_def by (simp add: subfolder_record.simps)
  have cu: "ctime_unreadable fts d = (case fts c of Inl e \<Rightarrow> is_oserror e | Inr dt \<Rightarrow> False)"
    unfolding d_def by (simp add: ctime_unreadable.simps)
  have "(\<exists>e. subfolder_record fts p d = Inl e \<and> \<not> is_oserror e) \<or>
         (if has_readable_file d \<and> \<not> ctime_unreadable fts d
          then \<exists>sf. subfolder_record fts p d = Inr (Some sf) \<and> folder_name sf = n \<and> 0 < file_count sf
          else (\<exists>e. subfolder_record fts p d = Inl e \<and> is_oserror e) \<or>
               subfolder_record fts p d = Inr None)"
  proof (cases "0 < cnt")
    case False
    then show ?thesis
      using pos rec by simp
  next
    case True
    then have h: "has_readable_file d"
      using pos by simp
    show ?thesis
    proof (cases "format_file_size (PInt sz)")
      case (Inl e)
      then have "e = OverflowError"
        by (rule format_file_size_error)
      then show ?thesis
        using rec True Inl h by (simp add: is_oserror_def)
    next
      case (Inr size_fmt)
      show ?thesis
      proof (cases "fts c")
        case (Inl e)
        then show ?thesis
          using rec True Inr h cu by (simp add: format_date_def)
      next
        case Inr2: (Inr dt)
        then show ?thesis
          using rec True Inr h cu by (simp add: format_date_def)
      qed
    qed
  qed
  then show ?thesis
    unfolding d_def .
qed

lemma scan_subfolders_characterised:
  assumes "scan_subfolders fts p es = Inr subs"
    and "\<forall>e\<in>set es. (\<forall>m. e \<noteq> Denied m) \<and> (\<forall>x\<in>set (rglob (node_name e) e). \<forall>m. snd x \<noteq> Denied m)"
  shows "map folder_name subs =
           map node_name (filter (\<lambda>d. has_readable_file d \<and> \<not> ctime_unreadable fts d) es) \<and>
         (\<forall>sf\<in>set subs. 0 < file_count sf)"
  using assms
proof (induction es arbitrary: subs)
  case Nil
  then show ?case by simp
next
  case (Cons e es)
  have rest: "\<forall>e\<in>set es. (\<forall>m. e \<noteq> Denied m) \<and>
      (\<forall>x\<in>set (rglob (node_name e) e). \<forall>m. snd x \<noteq> Denied m)"
    using Cons.prems(2) by simp
  show ?case
  proof (cases e)
    case (File n st)
    then show ?thesis
      using Cons.prems(1) Cons.IH[OF _ rest] by (simp add: has_readable_file.simps)
  next
    case (Other n)
    then show ?thesis
      using Cons.prems(1) Cons.IH[OF _ rest] by (simp add: has_readable_file.simps)
  next
    case (Denied n)
    then show ?thesis using Cons.prems(2) by simp
  next
    case (Dir n c readable ds)
    have nd: "\<forall>x\<in>set (rglob n (Dir n c readable ds)). \<forall>m. snd x \<noteq> Denied m"
      using Cons.prems(2) Dir by simp
    note sc = subfolder_record_cases[OF nd, of fts p]
    have no_err: "\<not> (\<exists>err. subfolder_record fts p e = Inl err \<and> \<not> is_oserror err)"
      using Cons.prems(1) Dir by (auto split: if_splits)
    show ?thesis
    proof (cases "has_readable_file e \<and> \<not> ctime_unreadable fts e")
      case True
      then obtain sf where rec: "subfolder_record fts p e = Inr (Some sf)" "folder_name sf = n"
          "0 < file_count sf"
        using sc no_err Dir by auto
      then obtain subs' where s: "scan_subfolders fts p es = Inr subs'" "subs = sf # subs'"
        using Cons.prems(1) Dir by (auto split: sum.splits)
      show ?thesis
        using Cons.IH[OF s(1) rest] s(2) rec True Dir by simp
    next
      case False
      then consider (err) err where "subfolder_record fts p e = Inl err" "is_oserror err"
        | (none) "subfolder_record fts p e = Inr None"
        using sc no_err Dir by auto
      then have "scan_subfolders fts p es = Inr subs"
        using Cons.prems(1) Dir by cases simp_all
      then show ?thesis
        using Cons.IH[OF _ rest] False by simp
    qed
  qed
qed

text \<open>
  Claim C9, as amended. For a scan that returns its two collections, the folder records are,
  in directory order, those of the immediate subdirectories that contain at least one
  readable regular file in their subtree and whose creation time can be formatted: a
  subdirectory whose \<^verbatim>\<open>format_date(folder_stat.st_ctime)\<close> raises an \<^verbatim>\<open>OSError\<close> is
  skipped by the \<^verbatim>\<open>except (OSError, PermissionError): continue\<close> of the loop, whatever it
  contains. Every record that is emitted has \<^verbatim>\<open>file_count > 0\<close>, so a subdirectory
  without a readable file never appears.
\<close>

theorem folder_record_iff_files:
  "scan_downloads_folder fts p (Some (Dir n c readable es)) = Inr (files_data, subfolders_data) \<longrightarrow>
     map folder_name subfolders_data =
       map node_name (filter (\<lambda>d. has_readable_file d \<and> \<not> ctime_unreadable fts d) es) \<and>
     (\<forall>sf\<in>set subfolders_data. 0 < file_count sf)"
proof
  assume a: "scan_downloads_folder fts p (Some (Dir n c readable es)) = Inr (files_data, subfolders_data)"
  then have r: "readable"
    by (auto split: sum.splits if_splits)
  from a have f: "scan_files fts p (rglob [] (Dir n c True es)) = Inr files_data"
    and s: "scan_subfolders fts p es = Inr subfolders_data"
    using r by (auto split: sum.splits if_splits)
  have nd: "snd x \<noteq> Denied m" if "x \<in> set (rglob [] (Dir n c True es))" for x m
    using scan_files_no_denied[OF f that] .
  have "\<forall>e\<in>set es. (\<forall>m. e \<noteq> Denied m) \<and>
      (\<forall>x\<in>set (rglob (node_name e) e). \<forall>m. snd x \<noteq> Denied m)"
  proof (intro ballI conjI allI)
    fix e m
    assume e: "e \<in> set es"
    then obtain x where "x \<in> set (rglob [] (Dir n c True es))" "snd x = e"
      using rglob_child_nodes(1)[OF e, of "[]" n c] by auto
    then show "e \<noteq> Denied m" using nd by metis
  next
    fix e x m
    assume e: "e \<in> set es" and x: "x \<in> set (rglob (node_name e) e)"
    then have "snd x \<in> snd ` set (rglob [] (Dir n c True es))"
      using rglob_child_nodes(2)[OF e, of "node_name e" "[]" n c] by auto
    then obtain y where "y \<in> set (rglob [] (Dir n c True es))" "snd y = snd x"
      by auto
    then show "snd x \<noteq> Denied m" using nd by metis
  qed
  then show "map folder_name subfolders_data =
       map node_name (filter (\<lambda>d. has_readable_file d \<and> \<not> ctime_unreadable fts d) es) \<and>
     (\<forall>sf\<in>set subfolders_data. 0 < file_count sf)"
    using scan_subfolders_characterised[OF s] by blast
qed

lemma ex_fmt_512: "format_file_size (PInt 512) = Inr ''512.0 B''"
  by (rule ex_fmt_small(1))

lemmas ex_scan_defs = file_record_def format_date_def utc_january_1970_def strftime_minutes_def
  pad4_def pad2_def string_of_nat.simps digit_char_def join_path_def is_oserror_def
  permission_exit_def Let_def

lemma ex_old_tree_scan:
  "scan_downloads_folder utc_january_1970 ''/dl'' (Some example_old_tree) =
     Inr ([\<lparr>size_bytes = 512, size_formatted = ''512.0 B'', name = ''b.txt'',
            modified_time = 200, modified_formatted = ''1970-01-01 00:03'',
            path = ''/dl/old/b.txt'', relative_path = ''old/b.txt''\<rparr>], [])"
  by (simp add: example_old_tree_def ex_scan_defs ex_fmt_512 rglob.simps subfolder_record.simps)

text \<open>
  Claim C9 as stated fails in the direction "a subdirectory with a readable file has a
  record": the subdirectory \<^verbatim>\<open>old\<close> holds the readable file \<^verbatim>\<open>b.txt\<close> (its count of files
  is 1), and its creation time is one second before 1970, which
  \<^verbatim>\<open>datetime.fromtimestamp\<close> refuses with an \<^verbatim>\<open>OSError\<close> on Windows. The scan returns,
  lists \<^verbatim>\<open>b.txt\<close> among the files, and has no folder record.
\<close>

theorem folder_record_old_folder_counterexample:
  "map_sum id snd (scan_downloads_folder utc_january_1970 ''/dl'' (Some example_old_tree)) = Inr [] \<and>
   example_old_tree = Dir ''dl'' 50 True [Dir ''old'' (- 1) True [File ''b.txt'' (Some (512, 200))]] \<and>
   has_readable_file (Dir ''old'' (- 1) True [File ''b.txt'' (Some (512, 200))]) \<and>
   count_files (rglob ''old'' (Dir ''old'' (- 1) True [File ''b.txt'' (Some (512, 200))])) =
     Inr (1, 512)"
proof -
  have "map_sum id snd (scan_downloads_folder utc_january_1970 ''/dl'' (Some example_old_tree)) =
      Inr []"
    by (simp add: ex_old_tree_scan)
  then show ?thesis
    by (simp add: example_old_tree_def has_readable_file.simps rglob.simps join_path_def
        del: scan_downloads_folder.simps)
qed

lemma ex_tree_scan:
  "scan_downloads_folder utc_january_1970 ''/dl'' (Some example_tree) =
     Inr ([\<lparr>size_bytes = 2048, size_formatted = ''2.0 KB'', name = ''a.txt'',
            modified_time = 100000, modified_formatted = ''1970-01-02 03:46'',
            path = ''/dl/a.txt'', relative_path = ''a.txt''\<rparr>,
           \<lparr>size_bytes = 1536, size_formatted = ''1.5 KB'', name = ''c.txt'',
            modified_time = 650000, modified_formatted = ''1970-01-08 12:33'',
            path = ''/dl/c.txt'', relative_path = ''c.txt''\<rparr>,
           \<lparr>size_bytes = 512, size_formatted = ''512.0 B'', name = ''b.TXT'',
            modified_time = 200, modified_formatted = ''1970-01-01 00:03'',
            path = ''/dl/sub/b.TXT'', relative_path = ''sub/b.TXT''\<rparr>],
          [\<lparr>folder_name = ''sub'', file_count = 1, folder_total_size = 512,
            folder_total_size_formatted = ''512.0 B'', created_time = 60,
            created_formatted = ''1970-01-01 00:01'', folder_path = ''/dl/sub''\<rparr>])"
  by (simp add: example_tree_def ex_scan_defs ex_fmt_512 ex_fmt_more rglob.simps
      subfolder_record.simps)

text \<open>
  The amended claim at the example tree: \<^verbatim>\<open>sub\<close> has one file and is recorded, \<^verbatim>\<open>empty\<close>
  has only an empty directory below it and is not.
\<close>

theorem folder_record_iff_files_witness:
  "(\<exists>files_data subfolders_data.
      scan_downloads_folder utc_january_1970 ''/dl'' (Some example_tree) =
        Inr (files_data, subfolders_data) \<and>
      map folder_name subfolders_data = [''sub''] \<and>
      map file_count subfolders_data = [1] \<and>
      list_all (\<lambda>sf. 0 < file_count sf) subfolders_data) \<and>
   example_tree =
     Dir ''dl'' 50 True
       [File ''a.txt'' (Some (2048, 100000)),
        Dir ''sub'' 60 True [File ''b.TXT'' (Some (512, 200))],
        Dir ''empty'' 70 True [Dir ''deeper'' 80 True []],
        File ''c.txt'' (Some (1536, 650000))] \<and>
   has_readable_file (Dir ''sub'' 60 True [File ''b.TXT'' (Some (512, 200))]) \<and>
   \<not> has_readable_file (Dir ''empty'' 70 True [Dir ''deeper'' 80 True []])"
proof -
  obtain files_data subfolders_data where
    s: "scan_downloads_folder utc_january_1970 ''/dl''
          (Some (Dir ''dl'' 50 True
             [File ''a.txt'' (Some (2048, 100000)),
              Dir ''sub'' 60 True [File ''b.TXT'' (Some (512, 200))],
              Dir ''empty'' 70 True [Dir ''deeper'' 80 True []],
              File ''c.txt'' (Some (1536, 650000))])) =
        Inr (files_data, subfolders_data)"
    and c: "map file_count subfolders_data = [1]"
    using ex_tree_scan by (simp add: example_tree_def)
  have "map folder_name subfolders_data =
       map node_name (filter (\<lambda>d. has_readable_file d \<and> \<not> ctime_unreadable utc_january_1970 d)
         [File ''a.txt'' (Some (2048, 100000)),
          Dir ''sub'' 60 True [File ''b.TXT'' (Some (512, 200))],
          Dir ''empty'' 70 True [Dir ''deeper'' 80 True []],
          File ''c.txt'' (Some (1536, 650000))]) \<and>
     (\<forall>sf\<in>set subfolders_data. 0 < file_count sf)"
    using folder_record_iff_files s by blast
  then have "map folder_name subfolders_data = [''sub''] \<and>
      list_all (\<lambda>sf. 0 < file_count sf) subfolders_data"
    by (simp add: has_readable_file.simps ctime_unreadable.simps utc_january_1970_def
        list_all_iff)
  then show ?thesis
    using s c by (simp add: example_tree_def has_readable_file.simps)
qed

end
